theory Spec2Isabelle
  imports Main "HOL-Library.Multiset" "HOL-Library.Sublist"
begin

section \<open>Values of the plugin framework\<close>

text \<open>
  The provider's models hold framework values (\<^verbatim>\<open>types.String\<close>, \<^verbatim>\<open>types.Int64\<close>,
  \<^verbatim>\<open>types.Bool\<close>, \<^verbatim>\<open>types.Set\<close>): a value is null, unknown, or known with a
  payload. The Go zero value of such a struct is the null value.
\<close>

datatype 'a attr = Null | Unknown | Known 'a

text \<open>The identifiers are \<^verbatim>\<open>int64\<close>. The code compares, copies and prints them and
  parses them from decimal strings with an explicit range check; it does no
  arithmetic on them, so they are modelled as integers.\<close>

type_synonym int64 = int

definition IsUnknown :: "'a attr \<Rightarrow> bool" where
  "IsUnknown a = (case a of Unknown \<Rightarrow> True | _ \<Rightarrow> False)"

definition IsNull :: "'a attr \<Rightarrow> bool" where
  "IsNull a = (case a of Null \<Rightarrow> True | _ \<Rightarrow> False)"

text \<open>\<^verbatim>\<open>ValueString\<close>, \<^verbatim>\<open>ValueBool\<close>, \<^verbatim>\<open>ValueInt64\<close>: the payload, or the zero value
  of the Go type when the value is null or unknown.\<close>

definition ValueString :: "string attr \<Rightarrow> string" where
  "ValueString a = (case a of Known s \<Rightarrow> s | _ \<Rightarrow> [])"

definition ValueBool :: "bool attr \<Rightarrow> bool" where
  "ValueBool a = (case a of Known b \<Rightarrow> b | _ \<Rightarrow> False)"

definition ValueInt64 :: "int64 attr \<Rightarrow> int64" where
  "ValueInt64 a = (case a of Known i \<Rightarrow> i | _ \<Rightarrow> 0)"

text \<open>\<^verbatim>\<open>Equal\<close> of a primitive value: the states are compared first, the payloads only
  when both are known.\<close>

fun Equal :: "'a attr \<Rightarrow> 'a attr \<Rightarrow> bool" where
  "Equal (Known x) (Known y) = (x = y)"
| "Equal Null Null = True"
| "Equal Unknown Unknown = True"
| "Equal _ _ = False"

text \<open>\<^verbatim>\<open>Equal\<close> of a \<^verbatim>\<open>types.Set\<close>: same state, and for known sets the same number of
  elements with every element of the receiver contained in the argument. The
  element comparison is a parameter (\<^verbatim>\<open>Equal\<close> of the element type).\<close>

fun SetEqual :: "('a \<Rightarrow> 'a \<Rightarrow> bool) \<Rightarrow> 'a list attr \<Rightarrow> 'a list attr \<Rightarrow> bool" where
  "SetEqual eq (Known xs) (Known ys) =
     (if length xs \<noteq> length ys then False
      else list_all (\<lambda>x. list_ex (\<lambda>y. eq y x) ys) xs)"
| "SetEqual eq Null Null = True"
| "SetEqual eq Unknown Unknown = True"
| "SetEqual eq _ _ = False"

text \<open>Diagnostics: only the severity and the summary are kept.\<close>

datatype diag = ErrorDiag string | WarningDiag string

fun is_error :: "diag \<Rightarrow> bool" where
  "is_error (ErrorDiag _) = True"
| "is_error (WarningDiag _) = False"

definition HasError :: "diag list \<Rightarrow> bool" where
  "HasError ds = list_ex is_error ds"

text \<open>What an operation did to the resource's entry in the Terraform state:
  nothing, \<^verbatim>\<open>State.Set\<close>, or \<^verbatim>\<open>State.RemoveResource\<close>.\<close>

datatype 's state_effect = Untouched | StateSet 's | Removed

text \<open>The result of \<^verbatim>\<open>Execute()\<close> of the generated REST client: the HTTP response
  (\<^verbatim>\<open>nil\<close> when the transport failed) and whether an error was returned. The body
  of a response is never \<^verbatim>\<open>nil\<close> (the HTTP client guarantees it), so it is a string.\<close>

record http_response =
  StatusCode :: nat
  Body :: string

record api_result =
  httpRes :: "http_response option"
  err :: bool

text \<open>\<^verbatim>\<open>httpRes != nil && httpRes.StatusCode == code\<close>.\<close>

definition status_is :: "api_result \<Rightarrow> nat \<Rightarrow> bool" where
  "status_is r code = (case httpRes r of None \<Rightarrow> False | Some h \<Rightarrow> StatusCode h = code)"

text \<open>The call failed with an HTTP response that satisfies \<open>P\<close>.\<close>

definition failed_with :: "api_result \<Rightarrow> (http_response \<Rightarrow> bool) \<Rightarrow> bool" where
  "failed_with r P = (err r \<and> (case httpRes r of None \<Rightarrow> False | Some h \<Rightarrow> P h))"

text \<open>\<^verbatim>\<open>strings.Contains\<close>.\<close>

fun Contains :: "string \<Rightarrow> string \<Rightarrow> bool" where
  "Contains [] substr = (substr = [])"
| "Contains (c # s) substr = (if prefix substr (c # s) then True else Contains s substr)"

text \<open>An operation either returns its response or panics on a \<^verbatim>\<open>nil\<close> pointer
  dereference; the panic is kept with the response as it was then (the calls
  issued before it).\<close>

datatype 'a outcome = Returns 'a | NilDereference 'a

fun response_of :: "'a outcome \<Rightarrow> 'a" where
  "response_of (Returns r) = r"
| "response_of (NilDereference r) = r"

section \<open>The retry loop\<close>

text \<open>
  What the retried function returned: \<^verbatim>\<open>nil\<close>, an ordinary error (recoverable),
  an error wrapped by \<^verbatim>\<open>retry.Unrecoverable\<close>, or a panic.
\<close>

datatype attempt = Nil | Recoverable | Unrecoverable | Panic

text \<open>
  \<^verbatim>\<open>retry.Do\<close> of the retry library with \<^verbatim>\<open>retry.Attempts(n)\<close>, \<open>n > 0\<close>: the function
  is called again after a recoverable error until \<open>n\<close> calls are made; \<^verbatim>\<open>nil\<close> and
  an unrecoverable error end the loop at once. \<open>retry_from k f i s\<close> runs the
  calls number \<open>i\<close>, \<open>i + 1\<close>, ... with \<open>k\<close> retries left, threading the state
  \<open>s\<close> that the function mutates, and returns the last result, the number of
  calls made and the final state. The delays between the calls are not
  modelled, and the context is taken not to be cancelled.
\<close>

fun retry_from :: "nat \<Rightarrow> (nat \<Rightarrow> 's \<Rightarrow> attempt \<times> 's) \<Rightarrow> nat \<Rightarrow> 's \<Rightarrow> attempt \<times> nat \<times> 's" where
  "retry_from 0 f i s = (case f i s of (a, s') \<Rightarrow> (a, Suc i, s'))"
| "retry_from (Suc k) f i s =
     (case f i s of
        (Recoverable, s') \<Rightarrow> retry_from k f (Suc i) s'
      | (a, s') \<Rightarrow> (a, Suc i, s'))"

definition retry_Do :: "nat \<Rightarrow> (nat \<Rightarrow> 's \<Rightarrow> attempt \<times> 's) \<Rightarrow> 's \<Rightarrow> attempt \<times> nat \<times> 's" where
  "retry_Do attempts f s = retry_from (attempts - 1) f 0 s"

section \<open>Calls to the remote API and responses of the operations\<close>

text \<open>One element of the PATCH body of a network tunnel group: the operation, the
  path and the value (a string, or a routing request with its type and CIDR list).\<close>

datatype patch_value = StringPatch string | RoutingPatch string "string list"

record patch_inner =
  patch_op :: string
  patch_path :: string
  patch_value :: patch_value

text \<open>A destination to create: the destination string and the comment.\<close>

record DestinationCreateObject =
  create_Destination :: string
  create_Comment :: string

text \<open>The value of a policy setting: the member of the union that is set.\<close>

datatype SettingValue = BoolSetting bool | Int64Setting int64 | StringSetting string

text \<open>The names of the policy settings are constants of the client library; the
  two that the provider uses are kept apart from all the others.\<close>

datatype SettingName =
    SETTINGNAME_SSE_GLOBAL_IPS_ENABLED
  | SETTINGNAME_UMBRELLA_POSTURE_IPS_PROFILE_ID
  | OtherSettingName string

text \<open>The calls to the remote API that the modelled operations issue. Request
  bodies are kept where the operations compute them from a comparison of plan
  and state; the other calls carry the identifier they address.\<close>

datatype api_call =
    AddRule
  | GetRule int64
  | PutRule int64
  | DeleteRule int64
  | AddPrivateResource
  | GetPrivateResource int64
  | PutPrivateResource int64
  | DeletePrivateResource int64
  | PatchNetworkTunnelGroup int64 "patch_inner list"
  | GetNetworkTunnelGroup int64
  | DeleteNetworkTunnelGroup int64
  | UpdateDestinationLists int64 string
  | GetDestinationList int64
  | DeleteDestinationList int64
  | GetDestinations int64
  | CreateDestinations int64 "DestinationCreateObject list"
  | DeleteDestinations int64 "int64 list"
  | GetPolicySettings
  | PutPolicySetting SettingName SettingValue
  | GetConnector int64
  | DeleteConnector int64

text \<open>The response of an operation: the diagnostics, what was done to the entry in
  the Terraform state, and the API calls issued, in order.\<close>

record 's response =
  Diagnostics :: "diag list"
  State :: "'s state_effect"
  Calls :: "api_call list"

definition AddError :: "string \<Rightarrow> 's response \<Rightarrow> 's response" where
  "AddError summary resp = resp\<lparr>Diagnostics := Diagnostics resp @ [ErrorDiag summary]\<rparr>"

definition call :: "api_call \<Rightarrow> 's response \<Rightarrow> 's response" where
  "call c resp = resp\<lparr>Calls := Calls resp @ [c]\<rparr>"

section \<open>Network tunnel group resource\<close>

record datacenterModel =
  dc_Name :: "string attr"
  dc_IP :: "string attr"

record hubModel =
  hub_Id :: "int64 attr"
  hub_Datacenter :: datacenterModel
  hub_AuthID :: "string attr"
  hub_IsPrimary :: "bool attr"

record ntgResourceModel =
  ntg_Id :: "int64 attr"
  NetworkCidrs :: "string attr list"
  ntg_Name :: "string attr"
  Region :: "string attr"
  IdentifierPrefix :: "string attr"
  PresharedKey :: "string attr"
  DeviceType :: "string attr"
  Hubs :: "hubModel list attr"

text \<open>\<^verbatim>\<open>compareStringSlicesAsSets\<close>: the inner loop looks for \<^verbatim>\<open>test\<close> in \<^verbatim>\<open>b\<close>, the
  outer loop returns false at the first element of \<^verbatim>\<open>a\<close> that is not found.\<close>

fun found_in :: "string attr \<Rightarrow> string attr list \<Rightarrow> bool" where
  "found_in test [] = False"
| "found_in test (compare # b) = (if Equal test compare then True else found_in test b)"

fun all_found :: "string attr list \<Rightarrow> string attr list \<Rightarrow> bool" where
  "all_found [] b = True"
| "all_found (test # a) b = (if \<not> found_in test b then False else all_found a b)"

definition compareStringSlicesAsSets :: "string attr list \<Rightarrow> string attr list \<Rightarrow> bool" where
  "compareStringSlicesAsSets a b = (if length a \<noteq> length b then False else all_found a b)"

definition convertNetworkCidrsToStrings :: "string attr list \<Rightarrow> string list" where
  "convertNetworkCidrsToStrings cidrs = map ValueString cidrs"

text \<open>The three change checks of \<^verbatim>\<open>Update\<close>, each appending to \<^verbatim>\<open>patchInners\<close>.\<close>

definition ntg_patchInners :: "ntgResourceModel \<Rightarrow> ntgResourceModel \<Rightarrow> patch_inner list" where
  "ntg_patchInners plan state =
     (if \<not> Equal (ntg_Name plan) (ntg_Name state)
      then [\<lparr>patch_op = ''replace'', patch_path = ''/name'',
             patch_value = StringPatch (ValueString (ntg_Name plan))\<rparr>] else [])
   @ (if \<not> Equal (PresharedKey plan) (PresharedKey state)
      then [\<lparr>patch_op = ''replace'', patch_path = ''/passphrase'',
             patch_value = StringPatch (ValueString (PresharedKey plan))\<rparr>] else [])
   @ (if \<not> compareStringSlicesAsSets (NetworkCidrs state) (NetworkCidrs plan)
      then [\<lparr>patch_op = ''replace'', patch_path = ''/routing'',
             patch_value = RoutingPatch ''static'' (convertNetworkCidrsToStrings (NetworkCidrs plan))\<rparr>]
      else [])"

text \<open>\<^verbatim>\<open>networkTunnelGroupResource.Update\<close>. \<^verbatim>\<open>plan_diags\<close> and \<^verbatim>\<open>state_diags\<close> are what
  decoding the plan and the prior state reported; \<^verbatim>\<open>patch_res\<close> is the answer of the
  PATCH call if it is issued. \<^verbatim>\<open>State.Set\<close> is taken to succeed.\<close>

definition ntg_Update ::
  "diag list \<Rightarrow> diag list \<Rightarrow> ntgResourceModel \<Rightarrow> ntgResourceModel \<Rightarrow> api_result
   \<Rightarrow> ntgResourceModel response" where
  "ntg_Update plan_diags state_diags plan state patch_res =
     (if HasError plan_diags
      then \<lparr>Diagnostics = plan_diags, State = Untouched, Calls = []\<rparr>
      else if HasError (plan_diags @ state_diags)
      then \<lparr>Diagnostics = plan_diags @ state_diags, State = Untouched, Calls = []\<rparr>
      else
        let tunnelId = ValueInt64 (ntg_Id plan);
            patchInners = ntg_patchInners plan state;
            ds = plan_diags @ state_diags;
            state' = state\<lparr>ntg_Name := ntg_Name plan, NetworkCidrs := NetworkCidrs plan,
                           PresharedKey := PresharedKey plan\<rparr>
        in if length patchInners > 0
           then if err patch_res
                then \<lparr>Diagnostics = ds @ [ErrorDiag ''Error updating network tunnel group''],
                      State = Untouched,
                      Calls = [PatchNetworkTunnelGroup tunnelId patchInners]\<rparr>
                else \<lparr>Diagnostics = ds, State = StateSet state',
                      Calls = [PatchNetworkTunnelGroup tunnelId patchInners]\<rparr>
           else \<lparr>Diagnostics = ds, State = StateSet state', Calls = []\<rparr>)"

text \<open>\<^verbatim>\<open>networkTunnelGroupResource.Read\<close>. \<^verbatim>\<open>loaded\<close> is the state with name, region,
  CIDR list, device type and hubs taken from the body of a successful answer.\<close>

definition ntg_Read ::
  "diag list \<Rightarrow> ntgResourceModel \<Rightarrow> api_result \<Rightarrow> ntgResourceModel
   \<Rightarrow> ntgResourceModel response" where
  "ntg_Read state_diags state get_res loaded =
     (if HasError state_diags
      then \<lparr>Diagnostics = state_diags, State = Untouched, Calls = []\<rparr>
      else
        let tunnelId = ValueInt64 (ntg_Id state);
            resp = \<lparr>Diagnostics = state_diags, State = Untouched,
                    Calls = [GetNetworkTunnelGroup tunnelId]\<rparr>
        in if status_is get_res 404 then resp\<lparr>State := Removed\<rparr>
           else if err get_res then AddError ''Error reading network tunnel group'' resp
           else resp\<lparr>State := StateSet loaded\<rparr>)"

text \<open>\<^verbatim>\<open>networkTunnelGroupResource.Delete\<close>. The last log line reads
  \<^verbatim>\<open>httpRes.Status\<close> without a \<^verbatim>\<open>nil\<close> check.\<close>

definition ntg_Delete ::
  "diag list \<Rightarrow> ntgResourceModel \<Rightarrow> api_result \<Rightarrow> ntgResourceModel response outcome" where
  "ntg_Delete state_diags state del_res =
     (if HasError state_diags
      then Returns \<lparr>Diagnostics = state_diags, State = Untouched, Calls = []\<rparr>
      else
        let tunnelId = ValueInt64 (ntg_Id state);
            resp = \<lparr>Diagnostics = state_diags, State = Untouched,
                    Calls = [DeleteNetworkTunnelGroup tunnelId]\<rparr>
        in if status_is del_res 404 then Returns resp
           else if err del_res then Returns (AddError ''Error deleting network tunnel group'' resp)
           else if httpRes del_res = None then NilDereference resp
           else Returns resp)"

section \<open>Access policy resource\<close>

record accessPolicyResourceModel =
  ap_ID :: "int64 attr"
  ap_Name :: "string attr"
  Action :: "string attr"
  PrivateResourceIds :: "int64 attr list attr"
  DestinationListIds :: "int64 attr list attr"
  ap_Description :: "string attr"
  ap_Enabled :: "bool attr"
  LogLevel :: "string attr"
  Priority :: "int64 attr"
  ClientPostureProfileId :: "int64 attr"
  SourceIds :: "int64 attr list attr"
  SourceTypes :: "string attr list attr"
  PrivateDestinationTypes :: "string attr list attr"
  PublicDestinationTypes :: "string attr list attr"
  TrafficType :: "string attr"

definition hasChanges :: "accessPolicyResourceModel \<Rightarrow> accessPolicyResourceModel \<Rightarrow> bool" where
  "hasChanges plan state =
     (\<not> Equal (ap_Name plan) (ap_Name state) \<or>
      \<not> Equal (ap_Description plan) (ap_Description state) \<or>
      \<not> Equal (ap_Enabled plan) (ap_Enabled state) \<or>
      \<not> Equal (Priority plan) (Priority state) \<or>
      \<not> SetEqual Equal (SourceIds plan) (SourceIds state) \<or>
      \<not> SetEqual Equal (SourceTypes plan) (SourceTypes state) \<or>
      \<not> SetEqual Equal (PrivateDestinationTypes plan) (PrivateDestinationTypes state) \<or>
      \<not> SetEqual Equal (PublicDestinationTypes plan) (PublicDestinationTypes state) \<or>
      \<not> SetEqual Equal (PrivateResourceIds plan) (PrivateResourceIds state) \<or>
      \<not> SetEqual Equal (DestinationListIds plan) (DestinationListIds state) \<or>
      \<not> Equal (LogLevel plan) (LogLevel state) \<or>
      \<not> Equal (ClientPostureProfileId plan) (ClientPostureProfileId state) \<or>
      \<not> Equal (TrafficType plan) (TrafficType state))"

text \<open>The text in the body of a 400 answer that makes \<^verbatim>\<open>Create\<close> retry.\<close>

definition invalid_ids_message :: string where
  "invalid_ids_message = ''invalid data passed. the ID's provided for''"

text \<open>The answer of \<^verbatim>\<open>AddRule\<close>: the result of the call, and the priority and the
  identifier of the created rule.\<close>

record AddRule_answer =
  add_res :: api_result
  RulePriority :: int64
  RuleId :: int64

text \<open>The function that \<^verbatim>\<open>Create\<close> hands to the retry loop. In the source's
  condition \<^verbatim>\<open>&&\<close> binds tighter than \<^verbatim>\<open>||\<close>.\<close>

definition ap_Create_attempt ::
  "accessPolicyResourceModel \<Rightarrow> AddRule_answer \<Rightarrow> accessPolicyResourceModel response
   \<Rightarrow> attempt \<times> accessPolicyResourceModel response" where
  "ap_Create_attempt plan answer resp0 =
     (let resp = call AddRule resp0
      in if err (add_res answer) then
           (case httpRes (add_res answer) of
              Some h \<Rightarrow>
                if (StatusCode h = 400 \<and> Contains (Body h) invalid_ids_message)
                   \<or> StatusCode h = 409
                then (Recoverable, resp)
                else (Unrecoverable, AddError ''Error creating access policy'' resp)
            | None \<Rightarrow> (Unrecoverable, AddError ''Error creating access policy'' resp))
         else
           let resp' = resp\<lparr>State := StateSet (plan\<lparr>Priority := Known (RulePriority answer),
                                                      ap_ID := Known (RuleId answer)\<rparr>)\<rparr>
           in if HasError (Diagnostics resp') then (Unrecoverable, resp') else (Nil, resp'))"

text \<open>\<^verbatim>\<open>accessPolicyResource.Create\<close>: six attempts. \<^verbatim>\<open>answers i\<close> is what the API
  answers to call number \<open>i\<close>.\<close>

definition ap_Create ::
  "diag list \<Rightarrow> accessPolicyResourceModel \<Rightarrow> (nat \<Rightarrow> AddRule_answer)
   \<Rightarrow> accessPolicyResourceModel response" where
  "ap_Create plan_diags plan answers =
     (if HasError plan_diags
      then \<lparr>Diagnostics = plan_diags, State = Untouched, Calls = []\<rparr>
      else
        case retry_Do 6 (\<lambda>i. ap_Create_attempt plan (answers i))
               \<lparr>Diagnostics = plan_diags, State = Untouched, Calls = []\<rparr> of
          (a, n, resp) \<Rightarrow>
            if a \<noteq> Nil \<and> \<not> HasError (Diagnostics resp)
            then AddError ''Error creating access policy'' resp
            else resp)"

text \<open>\<^verbatim>\<open>accessPolicyResource.Read\<close>. The diagnostics of decoding the state are only
  appended when the response already has an error, which a fresh response has
  not: they are dropped. \<^verbatim>\<open>loaded\<close> is the state filled from the conditions and
  settings of the rule in a successful answer.\<close>

definition ap_Read ::
  "diag list \<Rightarrow> accessPolicyResourceModel \<Rightarrow> api_result \<Rightarrow> accessPolicyResourceModel
   \<Rightarrow> accessPolicyResourceModel response" where
  "ap_Read state_diags state get_res loaded =
     (let resourceId = ValueInt64 (ap_ID state);
          resp = \<lparr>Diagnostics = [], State = Untouched, Calls = [GetRule resourceId]\<rparr>
      in if status_is get_res 404 then resp\<lparr>State := Removed\<rparr>
         else if err get_res then AddError ''Error reading access policy'' resp
         else resp\<lparr>State := StateSet loaded\<rparr>)"

text \<open>\<^verbatim>\<open>accessPolicyResource.Update\<close>. The request is built from the plan; its
  priority is a pointer that \<^verbatim>\<open>formatCreateAccessPolicyRequest\<close> sets only when
  the planned priority is not zero, and \<^verbatim>\<open>Update\<close> dereferences it.\<close>

definition ap_Update ::
  "diag list \<Rightarrow> diag list \<Rightarrow> accessPolicyResourceModel \<Rightarrow> accessPolicyResourceModel
   \<Rightarrow> api_result \<Rightarrow> accessPolicyResourceModel response outcome" where
  "ap_Update plan_diags state_diags plan state put_res =
     (if HasError plan_diags
      then Returns \<lparr>Diagnostics = plan_diags, State = Untouched, Calls = []\<rparr>
      else if HasError (plan_diags @ state_diags)
      then Returns \<lparr>Diagnostics = plan_diags @ state_diags, State = Untouched, Calls = []\<rparr>
      else
        let resp = \<lparr>Diagnostics = plan_diags @ state_diags, State = Untouched, Calls = []\<rparr>
        in if hasChanges plan state then
             if ValueInt64 (Priority plan) = 0 then NilDereference resp
             else
               let resp' = call (PutRule (ValueInt64 (ap_ID plan))) resp
               in if err put_res
                  then Returns (AddError ''Error updating access policy'' resp')
                  else Returns (resp'\<lparr>State := StateSet plan\<rparr>)
           else Returns (resp\<lparr>State := StateSet plan\<rparr>))"

text \<open>The function that \<^verbatim>\<open>Delete\<close> hands to the retry loop.\<close>

definition ap_Delete_attempt ::
  "int64 \<Rightarrow> api_result \<Rightarrow> accessPolicyResourceModel response
   \<Rightarrow> attempt \<times> accessPolicyResourceModel response" where
  "ap_Delete_attempt rid del_res resp0 =
     (let resp = call (DeleteRule rid) resp0
      in if status_is del_res 404 then (Nil, resp)
         else if err del_res \<and> status_is del_res 409 then (Recoverable, resp)
         else if err del_res then (Unrecoverable, resp)
         else (Nil, resp))"

text \<open>\<^verbatim>\<open>accessPolicyResource.Delete\<close>: three attempts.\<close>

definition ap_Delete ::
  "diag list \<Rightarrow> accessPolicyResourceModel \<Rightarrow> (nat \<Rightarrow> api_result)
   \<Rightarrow> accessPolicyResourceModel response" where
  "ap_Delete state_diags state answers =
     (if HasError state_diags
      then \<lparr>Diagnostics = state_diags, State = Untouched, Calls = []\<rparr>
      else
        case retry_Do 3 (\<lambda>i. ap_Delete_attempt (ValueInt64 (ap_ID state)) (answers i))
               \<lparr>Diagnostics = state_diags, State = Untouched, Calls = []\<rparr> of
          (a, n, resp) \<Rightarrow>
            if a \<noteq> Nil then AddError ''Error deleting access policy'' resp else resp)"

section \<open>Decimal conversions of the standard library\<close>

datatype NumError = ErrSyntax | ErrRange

definition digit_value :: "char \<Rightarrow> nat option" where
  "digit_value c =
     (let n = (of_char c :: nat) in if 48 \<le> n \<and> n \<le> 57 then Some (n - 48) else None)"

text \<open>The loop of \<^verbatim>\<open>strconv.ParseUint(s, 10, 64)\<close>: a character that is not a digit is
  a syntax error, a value beyond \<open>2^64 - 1\<close> a range error, whichever comes first.\<close>

fun ParseUint_loop :: "string \<Rightarrow> nat \<Rightarrow> nat \<times> NumError option" where
  "ParseUint_loop [] n = (n, None)"
| "ParseUint_loop (c # cs) n =
     (case digit_value c of
        None \<Rightarrow> (0, Some ErrSyntax)
      | Some d \<Rightarrow>
          if n \<ge> (2 ^ 64 - 1) div 10 + 1 then (2 ^ 64 - 1, Some ErrRange)
          else if n * 10 + d > 2 ^ 64 - 1 then (2 ^ 64 - 1, Some ErrRange)
          else ParseUint_loop cs (n * 10 + d))"

definition ParseUint :: "string \<Rightarrow> nat \<times> NumError option" where
  "ParseUint s = (if s = [] then (0, Some ErrSyntax) else ParseUint_loop s 0)"

text \<open>\<^verbatim>\<open>strconv.ParseInt(s, 10, 64)\<close>: an optional sign, then \<^verbatim>\<open>ParseUint\<close>; a value
  out of range is returned clamped, together with the range error.\<close>

definition ParseInt :: "string \<Rightarrow> int64 \<times> NumError option" where
  "ParseInt s =
     (case s of
        [] \<Rightarrow> (0, Some ErrSyntax)
      | c # cs \<Rightarrow>
          let neg = (c = CHR ''-'');
              s1 = (if c = CHR ''+'' \<or> c = CHR ''-'' then cs else s)
          in case ParseUint s1 of
               (un, Some ErrSyntax) \<Rightarrow> (0, Some ErrSyntax)
             | (un, _) \<Rightarrow>
                 if \<not> neg \<and> un \<ge> 2 ^ 63 then (2 ^ 63 - 1, Some ErrRange)
                 else if neg \<and> un > 2 ^ 63 then (- (2 ^ 63), Some ErrRange)
                 else (if neg then - int un else int un, None))"

text \<open>\<^verbatim>\<open>id, _ := strconv.Atoi(s)\<close>: the value, with the error dropped.\<close>

definition Atoi_value :: "string \<Rightarrow> int64" where
  "Atoi_value s = fst (ParseInt s)"

text \<open>\<^verbatim>\<open>strconv.Itoa\<close>.\<close>

function Itoa_nat :: "nat \<Rightarrow> string" where
  "Itoa_nat n =
     (if n < 10 then [''0123456789'' ! n]
      else Itoa_nat (n div 10) @ [''0123456789'' ! (n mod 10)])"
  by pat_completeness auto
termination
  by (relation "measure id") auto

definition Itoa :: "int \<Rightarrow> string" where
  "Itoa i = (if i < 0 then CHR ''-'' # Itoa_nat (nat (- i)) else Itoa_nat (nat i))"

section \<open>Private resource resource\<close>

record trafficSelectorModel =
  Ports :: "string attr"
  Protocol :: "string attr"

record addressTypesModel =
  at_Addresses :: "string attr list attr"
  TrafficSelector :: "trafficSelectorModel list attr"

record privateResourceResourceModel =
  pr_ID :: "string attr"
  pr_Name :: "string attr"
  AccessTypes :: "string attr list attr"
  pr_Addresses :: "addressTypesModel list attr"
  pr_Description :: "string attr"
  ClientReachableAddresses :: "string attr list attr"
  CertificateID :: "int64 attr"

text \<open>\<^verbatim>\<open>Equal\<close> of the objects in the nested sets: attribute by attribute.\<close>

definition trafficSelectorEqual :: "trafficSelectorModel \<Rightarrow> trafficSelectorModel \<Rightarrow> bool" where
  "trafficSelectorEqual a b = (Equal (Ports a) (Ports b) \<and> Equal (Protocol a) (Protocol b))"

definition addressTypesEqual :: "addressTypesModel \<Rightarrow> addressTypesModel \<Rightarrow> bool" where
  "addressTypesEqual a b =
     (SetEqual Equal (at_Addresses a) (at_Addresses b) \<and>
      SetEqual trafficSelectorEqual (TrafficSelector a) (TrafficSelector b))"

definition hasResourceChanges ::
  "privateResourceResourceModel \<Rightarrow> privateResourceResourceModel \<Rightarrow> bool" where
  "hasResourceChanges plan state =
     (\<not> Equal (pr_Name plan) (pr_Name state) \<or>
      \<not> Equal (pr_Description plan) (pr_Description state) \<or>
      \<not> SetEqual Equal (AccessTypes plan) (AccessTypes state) \<or>
      \<not> SetEqual addressTypesEqual (pr_Addresses plan) (pr_Addresses state) \<or>
      \<not> Equal (CertificateID plan) (CertificateID state))"

record AddPrivateResource_answer =
  addpr_res :: api_result
  ResourceId :: int64

text \<open>The function that \<^verbatim>\<open>createPrivateResourceWithRetry\<close> hands to the retry loop.
  On an error it reads \<^verbatim>\<open>httpRes.Body\<close> without a \<^verbatim>\<open>nil\<close> check.\<close>

definition pr_Create_attempt ::
  "AddPrivateResource_answer \<Rightarrow> privateResourceResourceModel response
   \<Rightarrow> attempt \<times> privateResourceResourceModel response" where
  "pr_Create_attempt answer resp0 =
     (let resp = call AddPrivateResource resp0
      in if err (addpr_res answer) then
           (case httpRes (addpr_res answer) of
              None \<Rightarrow> (Panic, resp)
            | Some h \<Rightarrow>
                if StatusCode h = 409 \<or> StatusCode h = 429 then (Recoverable, resp)
                else (Unrecoverable, resp))
         else (Nil, resp))"

text \<open>\<^verbatim>\<open>privateResourceResource.Create\<close>: three attempts. \<^verbatim>\<open>format_diags\<close> is what
  converting the plan into the request reported; the identifier in the state
  is the one of the last answer.\<close>

definition pr_Create ::
  "diag list \<Rightarrow> privateResourceResourceModel \<Rightarrow> diag list \<Rightarrow> (nat \<Rightarrow> AddPrivateResource_answer)
   \<Rightarrow> privateResourceResourceModel response outcome" where
  "pr_Create plan_diags plan format_diags answers =
     (if HasError plan_diags
      then Returns \<lparr>Diagnostics = plan_diags, State = Untouched, Calls = []\<rparr>
      else if HasError format_diags
      then Returns \<lparr>Diagnostics = plan_diags @ format_diags, State = Untouched, Calls = []\<rparr>
      else
        case retry_Do 3 (\<lambda>i. pr_Create_attempt (answers i))
               \<lparr>Diagnostics = plan_diags, State = Untouched, Calls = []\<rparr> of
          (Panic, n, resp) \<Rightarrow> NilDereference resp
        | (Nil, n, resp) \<Rightarrow>
            Returns (resp\<lparr>State := StateSet
                       (plan\<lparr>pr_ID := Known (Itoa (ResourceId (answers (n - 1))))\<rparr>)\<rparr>)
        | (a, n, resp) \<Rightarrow> Returns (AddError ''Error creating private resource'' resp))"

text \<open>\<^verbatim>\<open>privateResourceResource.Read\<close>. The status code is logged before the error
  is looked at, without a \<^verbatim>\<open>nil\<close> check. \<^verbatim>\<open>load_diags\<close> is what converting the
  addresses and access types of the answer reported, \<^verbatim>\<open>loaded\<close> the state filled
  from the answer.\<close>

definition pr_Read ::
  "diag list \<Rightarrow> privateResourceResourceModel \<Rightarrow> api_result \<Rightarrow> diag list
   \<Rightarrow> privateResourceResourceModel \<Rightarrow> privateResourceResourceModel response outcome" where
  "pr_Read state_diags state get_res load_diags loaded =
     (if HasError state_diags
      then Returns \<lparr>Diagnostics = state_diags, State = Untouched, Calls = []\<rparr>
      else
        let policyId = Atoi_value (ValueString (pr_ID state));
            resp = \<lparr>Diagnostics = state_diags, State = Untouched,
                    Calls = [GetPrivateResource policyId]\<rparr>
        in if httpRes get_res = None then NilDereference resp
           else if err get_res then
             if status_is get_res 404 then Returns (resp\<lparr>State := Removed\<rparr>)
             else Returns (AddError ''Error reading private resource'' resp)
           else if HasError load_diags
           then Returns (resp\<lparr>Diagnostics := Diagnostics resp @ load_diags\<rparr>)
           else Returns (resp\<lparr>Diagnostics := Diagnostics resp @ load_diags,
                               State := StateSet loaded\<rparr>))"

text \<open>\<^verbatim>\<open>privateResourceResource.Update\<close> with \<^verbatim>\<open>updatePrivateResource\<close>.\<close>

definition pr_Update ::
  "diag list \<Rightarrow> diag list \<Rightarrow> privateResourceResourceModel \<Rightarrow> privateResourceResourceModel
   \<Rightarrow> diag list \<Rightarrow> api_result \<Rightarrow> privateResourceResourceModel response" where
  "pr_Update plan_diags state_diags plan state format_diags put_res =
     (let resp = \<lparr>Diagnostics = plan_diags @ state_diags, State = Untouched, Calls = []\<rparr>
      in if HasError (Diagnostics resp) then resp
         else if hasResourceChanges plan state then
           if HasError format_diags
           then AddError ''Error updating private resource''
                  (resp\<lparr>Diagnostics := Diagnostics resp @ format_diags\<rparr>)
           else
             let resp' = call (PutPrivateResource (Atoi_value (ValueString (pr_ID plan)))) resp
             in if err put_res then AddError ''Error updating private resource'' resp'
                else resp'\<lparr>State := StateSet plan\<rparr>
         else resp\<lparr>State := StateSet plan\<rparr>)"

text \<open>\<^verbatim>\<open>privateResourceResource.Delete\<close>. The status code is read without a
  \<^verbatim>\<open>nil\<close> check.\<close>

definition pr_Delete ::
  "diag list \<Rightarrow> privateResourceResourceModel \<Rightarrow> api_result
   \<Rightarrow> privateResourceResourceModel response outcome" where
  "pr_Delete state_diags state del_res =
     (if HasError state_diags
      then Returns \<lparr>Diagnostics = state_diags, State = Untouched, Calls = []\<rparr>
      else
        let resp = \<lparr>Diagnostics = state_diags, State = Untouched,
                    Calls = [DeletePrivateResource (Atoi_value (ValueString (pr_ID state)))]\<rparr>
        in case httpRes del_res of
             None \<Rightarrow> NilDereference resp
           | Some h \<Rightarrow>
               if StatusCode h = 404 then Returns resp
               else if err del_res then Returns (AddError ''Error deleting private resource'' resp)
               else Returns resp)"

section \<open>Destination list resource\<close>

record destinationModel =
  dest_Id :: "string attr"
  Comment :: "string attr"
  Destination :: "string attr"
  dest_Type :: "string attr"

record destinationListResourceModel =
  dl_Id :: "int64 attr"
  dl_Name :: "string attr"
  Destinations :: "destinationModel list attr"

text \<open>\<^verbatim>\<open>ElementsAs(ctx, &target, true)\<close> into a slice: the elements of a known value,
  and the empty slice for a null or unknown one. The conversion of the elements
  is taken to report no error.\<close>

definition ElementsAs :: "'a list attr \<Rightarrow> 'a list" where
  "ElementsAs a = (case a of Known xs \<Rightarrow> xs | _ \<Rightarrow> [])"

text \<open>One destination in the answer of the API, and the answer of
  \<^verbatim>\<open>GetDestinations\<close>.\<close>

record destination_data =
  data_Id :: string
  data_Destination :: string
  data_Type :: string
  data_Comment :: "string option"

record GetDestinations_answer =
  getd_res :: api_result
  Data :: "destination_data list"

definition model_destination :: "destination_data \<Rightarrow> destinationModel" where
  "model_destination d =
     \<lparr>dest_Id = Known (data_Id d),
      Comment = (case data_Comment d of None \<Rightarrow> Null | Some c \<Rightarrow> Known c),
      Destination = Known (data_Destination d),
      dest_Type = Known (data_Type d)\<rparr>"

text \<open>\<^verbatim>\<open>destinationListResourceModel.GetDestinations\<close>: the destinations, an error,
  or a panic (the error message reads \<^verbatim>\<open>httpRes.Status\<close> without a \<^verbatim>\<open>nil\<close>
  check).\<close>

datatype GetDestinations_result =
  ReadDestinations "destinationModel list" | ReadError | ReadPanic

definition dl_GetDestinations :: "GetDestinations_answer \<Rightarrow> GetDestinations_result" where
  "dl_GetDestinations answer =
     (if err (getd_res answer) then
        (case httpRes (getd_res answer) of None \<Rightarrow> ReadPanic | Some h \<Rightarrow> ReadError)
      else ReadDestinations (map model_destination (Data answer)))"

text \<open>The text in the body of an answer that \<^verbatim>\<open>Read\<close> takes for "not found".\<close>

definition destinationListNotFoundError :: string where
  "destinationListNotFoundError = ''\"statusCode\":404,\"error\":\"Not Found\"''"

text \<open>The two loops of \<^verbatim>\<open>Update\<close> that look a destination up in the other list:
  the values of the \<^verbatim>\<open>Destination\<close> fields are compared with \<^verbatim>\<open>==\<close>.\<close>

fun reconciled :: "string attr \<Rightarrow> destinationModel list \<Rightarrow> bool" where
  "reconciled d [] = False"
| "reconciled d (x # xs) = (if Destination x = d then True else reconciled d xs)"

fun missingDestinations ::
  "destinationModel list \<Rightarrow> destinationModel list \<Rightarrow> DestinationCreateObject list" where
  "missingDestinations [] readDestinations = []"
| "missingDestinations (p # planDestinationList) readDestinations =
     (if \<not> reconciled (Destination p) readDestinations
      then \<lparr>create_Destination = ValueString (Destination p),
            create_Comment = ValueString (Comment p)\<rparr>
           # missingDestinations planDestinationList readDestinations
      else missingDestinations planDestinationList readDestinations)"

text \<open>The second loop stops with an error (\<^verbatim>\<open>None\<close>) at the first extraneous
  destination whose identifier is not a decimal \<^verbatim>\<open>int64\<close>.\<close>

fun extraDestinations ::
  "destinationModel list \<Rightarrow> destinationModel list \<Rightarrow> int64 list \<Rightarrow> int64 list option" where
  "extraDestinations [] planDestinationList acc = Some acc"
| "extraDestinations (r # readDestinations) planDestinationList acc =
     (if \<not> reconciled (Destination r) planDestinationList then
        (case ParseInt (ValueString (dest_Id r)) of
           (destinationID, None) \<Rightarrow>
             extraDestinations readDestinations planDestinationList (acc @ [destinationID])
         | (_, Some convErr) \<Rightarrow> None)
      else extraDestinations readDestinations planDestinationList acc)"

text \<open>The set differences on the destination string, as the specification words
  them: the planned destinations whose destination does not occur among the
  observed ones, and the observed ones whose destination does not occur among
  the planned ones.\<close>

definition planned_not_observed ::
  "destinationModel list \<Rightarrow> destinationModel list \<Rightarrow> destinationModel list" where
  "planned_not_observed planned observed =
     filter (\<lambda>p. Destination p \<notin> Destination ` set observed) planned"

definition observed_not_planned ::
  "destinationModel list \<Rightarrow> destinationModel list \<Rightarrow> destinationModel list" where
  "observed_not_planned observed planned =
     filter (\<lambda>r. Destination r \<notin> Destination ` set planned) observed"

definition create_object :: "destinationModel \<Rightarrow> DestinationCreateObject" where
  "create_object p =
     \<lparr>create_Destination = ValueString (Destination p), create_Comment = ValueString (Comment p)\<rparr>"

definition destination_id :: "destinationModel \<Rightarrow> int64" where
  "destination_id r = fst (ParseInt (ValueString (dest_Id r)))"

definition id_parses :: "destinationModel \<Rightarrow> bool" where
  "id_parses r = (snd (ParseInt (ValueString (dest_Id r))) = None)"

fun is_CreateDestinations :: "api_call \<Rightarrow> bool" where
  "is_CreateDestinations (CreateDestinations _ _) = True"
| "is_CreateDestinations _ = False"

fun is_DeleteDestinations :: "api_call \<Rightarrow> bool" where
  "is_DeleteDestinations (DeleteDestinations _ _) = True"
| "is_DeleteDestinations _ = False"

text \<open>The answers of the API to the calls of \<^verbatim>\<open>Update\<close>, in the order of the calls.\<close>

record dl_Update_answers =
  rename_res :: api_result
  current_answer :: GetDestinations_answer
  create_res :: api_result
  delete_res :: api_result
  final_answer :: GetDestinations_answer

text \<open>\<^verbatim>\<open>destinationListResource.Update\<close>, from the reading of the current
  destinations on.\<close>

definition dl_Update_reconcile ::
  "destinationListResourceModel \<Rightarrow> destinationListResourceModel \<Rightarrow> dl_Update_answers
   \<Rightarrow> destinationListResourceModel response \<Rightarrow> destinationListResourceModel response outcome" where
  "dl_Update_reconcile plan state answers resp0 =
     (let resp1 = call (GetDestinations (ValueInt64 (dl_Id state))) resp0
      in case dl_GetDestinations (current_answer answers) of
           ReadPanic \<Rightarrow> NilDereference resp1
         | ReadError \<Rightarrow> Returns (AddError ''Error retrieving destinations'' resp1)
         | ReadDestinations readDestinations \<Rightarrow>
             let planDestinationList = ElementsAs (Destinations plan);
                 missing = missingDestinations planDestinationList readDestinations;
                 resp2 = (if length missing > 0
                          then call (CreateDestinations (ValueInt64 (dl_Id plan)) missing) resp1
                          else resp1)
             in if length missing > 0 \<and> err (create_res answers)
                then Returns (AddError ''HTTP Response'' resp2)
                else
                  case extraDestinations readDestinations planDestinationList [] of
                    None \<Rightarrow> Returns (AddError ''Error converting destination ID'' resp2)
                  | Some extra \<Rightarrow>
                      let resp3 = (if length extra > 0
                                   then call (DeleteDestinations (ValueInt64 (dl_Id plan)) extra) resp2
                                   else resp2)
                      in if length extra > 0 \<and> err (delete_res answers)
                         then Returns (AddError ''HTTP Response'' resp3)
                         else
                           let resp4 = call (GetDestinations (ValueInt64 (dl_Id plan))) resp3
                           in case dl_GetDestinations (final_answer answers) of
                                ReadPanic \<Rightarrow> NilDereference resp4
                              | ReadError \<Rightarrow>
                                  Returns (AddError ''Error retrieving destinations'' resp4)
                              | ReadDestinations ds \<Rightarrow>
                                  Returns (resp4\<lparr>State :=
                                    StateSet (plan\<lparr>Destinations := Known ds\<rparr>)\<rparr>))"

text \<open>\<^verbatim>\<open>destinationListResource.Update\<close>: the name is patched first when it
  differs.\<close>

definition dl_Update ::
  "diag list \<Rightarrow> diag list \<Rightarrow> destinationListResourceModel \<Rightarrow> destinationListResourceModel
   \<Rightarrow> dl_Update_answers \<Rightarrow> destinationListResourceModel response outcome" where
  "dl_Update plan_diags state_diags plan state answers =
     (let resp = \<lparr>Diagnostics = plan_diags @ state_diags, State = Untouched, Calls = []\<rparr>
      in if HasError (Diagnostics resp) then Returns resp
         else if \<not> Equal (dl_Name plan) (dl_Name state) then
           let resp' = call (UpdateDestinationLists (ValueInt64 (dl_Id plan))
                               (ValueString (dl_Name plan))) resp
           in if err (rename_res answers) then Returns (AddError ''HTTP Response'' resp')
              else dl_Update_reconcile plan (state\<lparr>dl_Name := dl_Name plan\<rparr>) answers resp'
         else dl_Update_reconcile plan state answers resp)"

text \<open>\<^verbatim>\<open>destinationListResource.Read\<close>. The diagnostics of decoding the state are
  appended only when they hold an error. On an error of the API the body is
  searched for the "not found" text; the status code is not looked at, and
  \<^verbatim>\<open>httpRes.Body\<close> is read without a \<^verbatim>\<open>nil\<close> check of \<^verbatim>\<open>httpRes\<close>.\<close>

definition dl_Read ::
  "diag list \<Rightarrow> destinationListResourceModel \<Rightarrow> api_result \<Rightarrow> string
   \<Rightarrow> GetDestinations_answer \<Rightarrow> destinationListResourceModel response outcome" where
  "dl_Read state_diags data0 get_res name answer =
     (if HasError state_diags
      then Returns \<lparr>Diagnostics = state_diags, State = Untouched, Calls = []\<rparr>
      else
        let resp = \<lparr>Diagnostics = [], State = Untouched,
                    Calls = [GetDestinationList (ValueInt64 (dl_Id data0))]\<rparr>
        in if err get_res then
             (case httpRes get_res of
                None \<Rightarrow> NilDereference resp
              | Some h \<Rightarrow>
                  if Contains (Body h) destinationListNotFoundError
                  then Returns (resp\<lparr>State := Removed\<rparr>)
                  else Returns (AddError ''HTTP Response'' resp))
           else
             let data1 = data0\<lparr>dl_Name := Known name\<rparr>;
                 resp' = call (GetDestinations (ValueInt64 (dl_Id data1))) resp
             in case dl_GetDestinations answer of
                  ReadPanic \<Rightarrow> NilDereference resp'
                | ReadError \<Rightarrow> Returns (AddError ''Error retrieving destinations'' resp')
                | ReadDestinations ds \<Rightarrow>
                    Returns (resp'\<lparr>State := StateSet (data1\<lparr>Destinations := Known ds\<rparr>)\<rparr>))"

text \<open>\<^verbatim>\<open>destinationListResource.Delete\<close>. The status code is read without a
  \<^verbatim>\<open>nil\<close> check.\<close>

definition dl_Delete ::
  "diag list \<Rightarrow> destinationListResourceModel \<Rightarrow> api_result
   \<Rightarrow> destinationListResourceModel response outcome" where
  "dl_Delete state_diags data0 del_res =
     (if HasError state_diags
      then Returns \<lparr>Diagnostics = state_diags, State = Untouched, Calls = []\<rparr>
      else
        let resp = \<lparr>Diagnostics = state_diags, State = Untouched,
                    Calls = [DeleteDestinationList (ValueInt64 (dl_Id data0))]\<rparr>
        in case httpRes del_res of
             None \<Rightarrow> NilDereference resp
           | Some h \<Rightarrow>
               if StatusCode h = 404 then Returns resp
               else if err del_res then Returns (AddError ''HTTP Response'' resp)
               else Returns resp)"

section \<open>Global settings resource\<close>

record globalSettingsResourceModel =
  gs_Id :: "string attr"
  EnableGlobalDecryption :: "bool attr"
  GlobalIPSProfileId :: "int64 attr"

definition globalSettingsResourceID :: string where
  "globalSettingsResourceID = ''global-settings''"

text \<open>One setting in the answer of \<^verbatim>\<open>GetPolicySettings\<close>: the name and the members
  of the value that are set.\<close>

record policy_setting =
  setting_Name :: SettingName
  setting_Bool :: "bool option"
  setting_Int64 :: "int64 option"

text \<open>The loop of \<^verbatim>\<open>FetchState\<close> over the settings of the answer.\<close>

fun parse_settings :: "policy_setting list \<Rightarrow> globalSettingsResourceModel \<Rightarrow> globalSettingsResourceModel" where
  "parse_settings [] state = state"
| "parse_settings (setting # rest) state =
     parse_settings rest
       (case setting_Name setting of
          SETTINGNAME_SSE_GLOBAL_IPS_ENABLED \<Rightarrow>
            (case setting_Bool setting of
               Some b \<Rightarrow> state\<lparr>EnableGlobalDecryption := Known b\<rparr> | None \<Rightarrow> state)
        | SETTINGNAME_UMBRELLA_POSTURE_IPS_PROFILE_ID \<Rightarrow>
            (case setting_Int64 setting of
               Some i \<Rightarrow> state\<lparr>GlobalIPSProfileId := Known i\<rparr> | None \<Rightarrow> state)
        | OtherSettingName _ \<Rightarrow> state)"

text \<open>\<^verbatim>\<open>FetchState\<close>: the diagnostics and the state filled from the answer.\<close>

definition gs_FetchState ::
  "api_result \<Rightarrow> policy_setting list \<Rightarrow> globalSettingsResourceModel
   \<Rightarrow> diag list \<times> globalSettingsResourceModel" where
  "gs_FetchState get_res getResp state =
     (if err get_res then ([ErrorDiag ''Error retrieving global policy settings''], state)
      else ([], parse_settings getResp state))"

text \<open>The result of \<^verbatim>\<open>PutState\<close>: the diagnostics, the two models it mutates, and the
  calls it issued.\<close>

record PutState_result =
  ps_diags :: "diag list"
  ps_currentState :: globalSettingsResourceModel
  ps_plan :: globalSettingsResourceModel
  ps_calls :: "api_call list"

text \<open>The second half of \<^verbatim>\<open>PutState\<close>: the IPS profile identifier.\<close>

definition gs_PutState_profile ::
  "globalSettingsResourceModel \<Rightarrow> globalSettingsResourceModel \<Rightarrow> api_result
   \<Rightarrow> api_call list \<Rightarrow> PutState_result" where
  "gs_PutState_profile currentState plan put_profile_res calls =
     (if \<not> IsUnknown (GlobalIPSProfileId plan) \<and>
         ValueInt64 (GlobalIPSProfileId plan) \<noteq> ValueInt64 (GlobalIPSProfileId currentState)
      then
        let calls' = calls @ [PutPolicySetting SETTINGNAME_UMBRELLA_POSTURE_IPS_PROFILE_ID
                                (Int64Setting (ValueInt64 (GlobalIPSProfileId plan)))]
        in if err put_profile_res
           then \<lparr>ps_diags = [ErrorDiag ''Error updating global IPS profile ID setting''],
                 ps_currentState = currentState, ps_plan = plan, ps_calls = calls'\<rparr>
           else \<lparr>ps_diags = [],
                 ps_currentState = currentState\<lparr>GlobalIPSProfileId := GlobalIPSProfileId plan\<rparr>,
                 ps_plan = plan, ps_calls = calls'\<rparr>
      else if IsUnknown (GlobalIPSProfileId plan)
      then \<lparr>ps_diags = [], ps_currentState = currentState,
            ps_plan = plan\<lparr>GlobalIPSProfileId := GlobalIPSProfileId currentState\<rparr>,
            ps_calls = calls\<rparr>
      else \<lparr>ps_diags = [], ps_currentState = currentState, ps_plan = plan, ps_calls = calls\<rparr>)"

text \<open>\<^verbatim>\<open>globalSettingsResource.PutState\<close>: the decryption setting first; an error
  of its write returns before the second setting is looked at.\<close>

definition gs_PutState ::
  "globalSettingsResourceModel \<Rightarrow> globalSettingsResourceModel \<Rightarrow> api_result \<Rightarrow> api_result
   \<Rightarrow> PutState_result" where
  "gs_PutState currentState plan put_decryption_res put_profile_res =
     (if \<not> IsUnknown (EnableGlobalDecryption plan) \<and>
         ValueBool (EnableGlobalDecryption plan) \<noteq> ValueBool (EnableGlobalDecryption currentState)
      then
        let calls = [PutPolicySetting SETTINGNAME_SSE_GLOBAL_IPS_ENABLED
                       (BoolSetting (ValueBool (EnableGlobalDecryption plan)))]
        in if err put_decryption_res
           then \<lparr>ps_diags = [ErrorDiag ''Error updating global decryption setting''],
                 ps_currentState = currentState, ps_plan = plan, ps_calls = calls\<rparr>
           else gs_PutState_profile
                  (currentState\<lparr>EnableGlobalDecryption := EnableGlobalDecryption plan\<rparr>)
                  plan put_profile_res calls
      else if IsUnknown (EnableGlobalDecryption plan)
      then gs_PutState_profile currentState
             (plan\<lparr>EnableGlobalDecryption := EnableGlobalDecryption currentState\<rparr>)
             put_profile_res []
      else gs_PutState_profile currentState plan put_profile_res [])"

text \<open>\<^verbatim>\<open>globalSettingsResource.Read\<close>: there is no branch on the status code.\<close>

definition gs_Read ::
  "diag list \<Rightarrow> globalSettingsResourceModel \<Rightarrow> api_result \<Rightarrow> policy_setting list
   \<Rightarrow> globalSettingsResourceModel response" where
  "gs_Read state_diags data0 get_res getResp =
     (if HasError state_diags
      then \<lparr>Diagnostics = state_diags, State = Untouched, Calls = []\<rparr>
      else
        case gs_FetchState get_res getResp data0 of
          (diags, data1) \<Rightarrow>
            if HasError diags
            then \<lparr>Diagnostics = state_diags @ diags, State = Untouched,
                  Calls = [GetPolicySettings]\<rparr>
            else \<lparr>Diagnostics = state_diags,
                  State = StateSet (data1\<lparr>gs_Id := Known globalSettingsResourceID\<rparr>),
                  Calls = [GetPolicySettings]\<rparr>)"

text \<open>\<^verbatim>\<open>globalSettingsResource.Update\<close>.\<close>

definition gs_Update ::
  "diag list \<Rightarrow> diag list \<Rightarrow> globalSettingsResourceModel \<Rightarrow> globalSettingsResourceModel
   \<Rightarrow> api_result \<Rightarrow> api_result \<Rightarrow> globalSettingsResourceModel response" where
  "gs_Update plan_diags state_diags plan state put_decryption_res put_profile_res =
     (if HasError (plan_diags @ state_diags)
      then \<lparr>Diagnostics = plan_diags @ state_diags, State = Untouched, Calls = []\<rparr>
      else
        let r = gs_PutState state plan put_decryption_res put_profile_res
        in if HasError (ps_diags r)
           then \<lparr>Diagnostics = plan_diags @ state_diags @ ps_diags r, State = Untouched,
                 Calls = ps_calls r\<rparr>
           else \<lparr>Diagnostics = plan_diags @ state_diags,
                 State = StateSet ((ps_plan r)\<lparr>gs_Id := Known globalSettingsResourceID\<rparr>),
                 Calls = ps_calls r\<rparr>)"

text \<open>\<^verbatim>\<open>globalSettingsResource.Delete\<close>: the state is decoded and logged, nothing
  else.\<close>

definition gs_Delete ::
  "diag list \<Rightarrow> globalSettingsResourceModel \<Rightarrow> globalSettingsResourceModel response" where
  "gs_Delete state_diags data0 =
     (if HasError state_diags
      then \<lparr>Diagnostics = state_diags, State = Untouched, Calls = []\<rparr>
      else \<lparr>Diagnostics = state_diags, State = Untouched, Calls = []\<rparr>)"

text \<open>The settings of the remote service, and what a sequence of calls does to
  them: only \<^verbatim>\<open>PutPolicySetting\<close> writes a setting.\<close>

type_synonym remote_settings = "SettingName \<Rightarrow> SettingValue option"

fun apply_calls :: "api_call list \<Rightarrow> remote_settings \<Rightarrow> remote_settings" where
  "apply_calls [] remote = remote"
| "apply_calls (PutPolicySetting name v # cs) remote = apply_calls cs (remote(name \<mapsto> v))"
| "apply_calls (c # cs) remote = apply_calls cs remote"

text \<open>After \<^verbatim>\<open>Delete\<close> has returned, the hosting framework removes the entry from the
  state when the response holds no error diagnostic.\<close>

definition framework_after_Delete :: "'s response \<Rightarrow> 's state_effect" where
  "framework_after_Delete resp = (if \<not> HasError (Diagnostics resp) then Removed else State resp)"

section \<open>Resource connector agent resource\<close>

record resourceConnectorAgentResourceModel =
  rc_ID :: "int64 attr"
  InstanceID :: "string attr"
  Hostname :: "string attr"
  Status :: "string attr"
  Confirmed :: "bool attr"
  rc_Enabled :: "bool attr"

text \<open>The function that \<^verbatim>\<open>Read\<close> hands to the retry loop. \<^verbatim>\<open>loaded\<close> is the state
  filled from the agent in a successful answer.\<close>

definition rc_Read_attempt ::
  "int64 \<Rightarrow> api_result \<Rightarrow> resourceConnectorAgentResourceModel
   \<Rightarrow> resourceConnectorAgentResourceModel response
   \<Rightarrow> attempt \<times> resourceConnectorAgentResourceModel response" where
  "rc_Read_attempt agentID get_res loaded resp0 =
     (let resp = call (GetConnector agentID) resp0
      in if status_is get_res 404 then (Nil, resp\<lparr>State := Removed\<rparr>)
         else if status_is get_res 429 then (Recoverable, resp)
         else if err get_res then (Unrecoverable, resp)
         else (Nil, resp\<lparr>State := StateSet loaded\<rparr>))"

text \<open>\<^verbatim>\<open>resourceConnectorAgentResource.Read\<close>: six attempts.\<close>

definition rc_Read ::
  "diag list \<Rightarrow> resourceConnectorAgentResourceModel \<Rightarrow> (nat \<Rightarrow> api_result)
   \<Rightarrow> (nat \<Rightarrow> resourceConnectorAgentResourceModel)
   \<Rightarrow> resourceConnectorAgentResourceModel response" where
  "rc_Read state_diags data0 answers loaded =
     (if HasError state_diags
      then \<lparr>Diagnostics = state_diags, State = Untouched, Calls = []\<rparr>
      else
        case retry_Do 6 (\<lambda>i. rc_Read_attempt (ValueInt64 (rc_ID data0)) (answers i) (loaded i))
               \<lparr>Diagnostics = state_diags, State = Untouched, Calls = []\<rparr> of
          (a, n, resp) \<Rightarrow>
            if a \<noteq> Nil
            then AddError ''Could not retrieve resource connector agent config'' resp
            else resp)"

text \<open>The function that \<^verbatim>\<open>Delete\<close> hands to the retry loop: the status 429 is
  looked at before 404.\<close>

definition rc_Delete_attempt ::
  "int64 \<Rightarrow> api_result \<Rightarrow> resourceConnectorAgentResourceModel response
   \<Rightarrow> attempt \<times> resourceConnectorAgentResourceModel response" where
  "rc_Delete_attempt agentID del_res resp0 =
     (let resp = call (DeleteConnector agentID) resp0
      in if status_is del_res 429 then (Recoverable, resp)
         else if status_is del_res 404 then (Nil, resp)
         else if err del_res then (Unrecoverable, resp)
         else (Nil, resp))"

text \<open>\<^verbatim>\<open>resourceConnectorAgentResource.Delete\<close>: six attempts.\<close>

definition rc_Delete ::
  "diag list \<Rightarrow> resourceConnectorAgentResourceModel \<Rightarrow> (nat \<Rightarrow> api_result)
   \<Rightarrow> resourceConnectorAgentResourceModel response" where
  "rc_Delete state_diags data0 answers =
     (if HasError state_diags
      then \<lparr>Diagnostics = state_diags, State = Untouched, Calls = []\<rparr>
      else
        case retry_Do 6 (\<lambda>i. rc_Delete_attempt (ValueInt64 (rc_ID data0)) (answers i))
               \<lparr>Diagnostics = state_diags, State = Untouched, Calls = []\<rparr> of
          (a, n, resp) \<Rightarrow>
            if a \<noteq> Nil
            then AddError ''Error deleting resource connector agent'' resp
            else resp)"

section \<open>Example inputs\<close>

text \<open>Concrete answers of the API.\<close>

definition answer_ok :: api_result where
  "answer_ok = \<lparr>httpRes = Some \<lparr>StatusCode = 200, Body = ''{}''\<rparr>, err = False\<rparr>"

definition answer_failed :: "nat \<Rightarrow> string \<Rightarrow> api_result" where
  "answer_failed code body = \<lparr>httpRes = Some \<lparr>StatusCode = code, Body = body\<rparr>, err = True\<rparr>"

text \<open>A tunnel group in state, the same group with its two CIDRs in the other
  order, and with the first CIDR alone or twice.\<close>

definition cidr_a :: "string attr" where
  "cidr_a = Known ''10.0.0.0/8''"

definition cidr_b :: "string attr" where
  "cidr_b = Known ''192.168.0.0/16''"

definition ntg_example :: ntgResourceModel where
  "ntg_example =
     \<lparr>ntg_Id = Known 7, NetworkCidrs = [cidr_a, cidr_b], ntg_Name = Known ''branch'',
      Region = Known ''us-east-1'', IdentifierPrefix = Known ''branch'',
      PresharedKey = Known ''secret'', DeviceType = Known ''ASA'', Hubs = Known []\<rparr>"

definition ntg_reordered :: ntgResourceModel where
  "ntg_reordered = ntg_example\<lparr>NetworkCidrs := [cidr_b, cidr_a]\<rparr>"

definition ntg_single :: ntgResourceModel where
  "ntg_single = ntg_example\<lparr>NetworkCidrs := [cidr_a]\<rparr>"

definition ntg_twice :: ntgResourceModel where
  "ntg_twice = ntg_example\<lparr>NetworkCidrs := [cidr_a, cidr_a]\<rparr>"

text \<open>An access policy in state, and the plan that changes only its action.\<close>

definition ap_example :: accessPolicyResourceModel where
  "ap_example =
     \<lparr>ap_ID = Known 42, ap_Name = Known ''remote users'', Action = Known ''allow'',
      PrivateResourceIds = Known [Known 5], DestinationListIds = Null,
      ap_Description = Known ''access for remote users'', ap_Enabled = Known True,
      LogLevel = Known ''LOG_ALL'', Priority = Known 3, ClientPostureProfileId = Null,
      SourceIds = Known [Known 11, Known 12], SourceTypes = Null,
      PrivateDestinationTypes = Null, PublicDestinationTypes = Null,
      TrafficType = Known ''PRIVATE_NETWORK''\<rparr>"

definition ap_blocked :: accessPolicyResourceModel where
  "ap_blocked = ap_example\<lparr>Action := Known ''block''\<rparr>"

text \<open>A private resource.\<close>

definition pr_example :: privateResourceResourceModel where
  "pr_example =
     \<lparr>pr_ID = Known ''314'', pr_Name = Known ''wiki'', AccessTypes = Known [Known ''network''],
      pr_Addresses = Known
        [\<lparr>at_Addresses = Known [Known ''10.10.110.2/32''],
          TrafficSelector = Known [\<lparr>Ports = Known ''443'', Protocol = Known ''http/https''\<rparr>,
                                   \<lparr>Ports = Known ''5443'', Protocol = Known ''udp''\<rparr>]\<rparr>],
      pr_Description = Known ''internal wiki'', ClientReachableAddresses = Null,
      CertificateID = Null\<rparr>"

text \<open>Global settings as fetched, a plan that changes both, a plan that sets
  the decryption flag alone, one whose flag is null, and one that sets nothing.\<close>

definition gs_current :: globalSettingsResourceModel where
  "gs_current =
     \<lparr>gs_Id = Known ''global-settings'', EnableGlobalDecryption = Known True,
      GlobalIPSProfileId = Known 7\<rparr>"

definition gs_changed :: globalSettingsResourceModel where
  "gs_changed =
     \<lparr>gs_Id = Known ''global-settings'', EnableGlobalDecryption = Known False,
      GlobalIPSProfileId = Known 9\<rparr>"

definition gs_flag_only :: globalSettingsResourceModel where
  "gs_flag_only =
     \<lparr>gs_Id = Unknown, EnableGlobalDecryption = Known False, GlobalIPSProfileId = Unknown\<rparr>"

definition gs_unset :: globalSettingsResourceModel where
  "gs_unset = \<lparr>gs_Id = Unknown, EnableGlobalDecryption = Null, GlobalIPSProfileId = Unknown\<rparr>"

definition gs_unknown :: globalSettingsResourceModel where
  "gs_unknown = \<lparr>gs_Id = Unknown, EnableGlobalDecryption = Unknown, GlobalIPSProfileId = Unknown\<rparr>"

definition remote_example :: remote_settings where
  "remote_example =
     [SETTINGNAME_SSE_GLOBAL_IPS_ENABLED \<mapsto> BoolSetting True,
      SETTINGNAME_UMBRELLA_POSTURE_IPS_PROFILE_ID \<mapsto> Int64Setting 7]"

text \<open>A destination list with two destinations, and a connector agent.\<close>

definition dest_example :: destinationModel where
  "dest_example =
     \<lparr>dest_Id = Known ''101'', Comment = Known ''docs'', Destination = Known ''example.com'',
      dest_Type = Known ''DOMAIN''\<rparr>"

definition dest_other :: destinationModel where
  "dest_other =
     \<lparr>dest_Id = Known ''102'', Comment = Null, Destination = Known ''example.org'',
      dest_Type = Known ''DOMAIN''\<rparr>"

definition dest_new :: destinationModel where
  "dest_new =
     \<lparr>dest_Id = Unknown, Comment = Known ''new'', Destination = Known ''example.net'',
      dest_Type = Known ''DOMAIN''\<rparr>"

definition dl_example :: destinationListResourceModel where
  "dl_example =
     \<lparr>dl_Id = Known 55, dl_Name = Known ''allowed'',
      Destinations = Known [dest_example, dest_other]\<rparr>"

definition rc_example :: resourceConnectorAgentResourceModel where
  "rc_example =
     \<lparr>rc_ID = Known 3, InstanceID = Known ''i-0abc'', Hostname = Known ''rc-1'',
      Status = Known ''active'', Confirmed = Known True, rc_Enabled = Known True\<rparr>"

text \<open>Answers to a retried call: a failure with the given status at the first
  call, and "not found" afterwards.\<close>

definition then_not_found :: "nat \<Rightarrow> nat \<Rightarrow> api_result" where
  "then_not_found code i = (if i = 0 then answer_failed code ''busy'' else answer_failed 404 ''gone'')"

text \<open>An answer of \<^verbatim>\<open>GetDestinations\<close> with the two destinations of the example
  list, and a "not found" answer as the destination lists API words it.\<close>

definition dests_answer :: GetDestinations_answer where
  "dests_answer =
     \<lparr>getd_res = answer_ok,
      Data = [\<lparr>data_Id = ''101'', data_Destination = ''example.com'', data_Type = ''DOMAIN'',
               data_Comment = Some ''docs''\<rparr>,
              \<lparr>data_Id = ''102'', data_Destination = ''example.org'', data_Type = ''DOMAIN'',
               data_Comment = None\<rparr>]\<rparr>"

definition answer_list_gone :: api_result where
  "answer_list_gone =
     answer_failed 200 ''{\"statusCode\":404,\"error\":\"Not Found\",\"message\":\"no list\"}''"

text \<open>A plan for the example list that keeps the first destination, drops the
  second and adds a third; the answers of the API when every call succeeds, and
  when the creation fails.\<close>

definition dl_plan :: destinationListResourceModel where
  "dl_plan = dl_example\<lparr>Destinations := Known [dest_example, dest_new]\<rparr>"

definition dl_answers_ok :: dl_Update_answers where
  "dl_answers_ok =
     \<lparr>rename_res = answer_ok, current_answer = dests_answer, create_res = answer_ok,
      delete_res = answer_ok, final_answer = dests_answer\<rparr>"

definition dl_answers_create_fails :: dl_Update_answers where
  "dl_answers_create_fails = dl_answers_ok\<lparr>create_res := answer_failed 500 ''down''\<rparr>"

text \<open>Answers to \<^verbatim>\<open>AddRule\<close> and \<^verbatim>\<open>AddPrivateResource\<close> that fail with a given status
  and body at every call.\<close>

definition AddRule_fails :: "nat \<Rightarrow> string \<Rightarrow> nat \<Rightarrow> AddRule_answer" where
  "AddRule_fails code body i = \<lparr>add_res = answer_failed code body, RulePriority = 0, RuleId = 0\<rparr>"

definition AddPrivateResource_fails :: "nat \<Rightarrow> string \<Rightarrow> nat \<Rightarrow> AddPrivateResource_answer" where
  "AddPrivateResource_fails code body i = \<lparr>addpr_res = answer_failed code body, ResourceId = 0\<rparr>"

text \<open>Answers that fail with a conflict at the first call and with the given
  status afterwards.\<close>

definition AddRule_conflict_then :: "nat \<Rightarrow> nat \<Rightarrow> AddRule_answer" where
  "AddRule_conflict_then code i = AddRule_fails (if i = 0 then 409 else code) ''busy'' i"

definition AddPrivateResource_conflict_then :: "nat \<Rightarrow> nat \<Rightarrow> AddPrivateResource_answer" where
  "AddPrivateResource_conflict_then code i =
     AddPrivateResource_fails (if i = 0 then 409 else code) ''busy'' i"

section \<open>Properties of the framework values\<close>

lemma Equal_iff: "Equal a b \<longleftrightarrow> a = b"
  by (cases a; cases b) simp_all

lemma found_in_iff: "found_in t b \<longleftrightarrow> t \<in> set b"
  by (induction b) (auto simp: Equal_iff)

lemma all_found_iff: "all_found a b \<longleftrightarrow> set a \<subseteq> set b"
  by (induction a) (auto simp: found_in_iff)

lemma compareStringSlicesAsSets_iff:
  "compareStringSlicesAsSets a b \<longleftrightarrow> length a = length b \<and> set a \<subseteq> set b"
  by (simp add: compareStringSlicesAsSets_def all_found_iff)

lemma Equal_refl: "Equal a a"
  by (simp add: Equal_iff)

lemma SetEqual_refl:
  assumes "\<And>x. eq x x"
  shows "SetEqual eq s s"
proof (cases s)
  case (Known xs)
  have "list_all (\<lambda>x. list_ex (\<lambda>y. eq y x) xs) xs"
    using assms by (auto simp: list_all_iff list_ex_iff)
  with Known show ?thesis by simp
qed simp_all

lemma trafficSelectorEqual_refl: "trafficSelectorEqual a a"
  by (simp add: trafficSelectorEqual_def Equal_refl)

lemma addressTypesEqual_refl: "addressTypesEqual a a"
  by (simp add: addressTypesEqual_def SetEqual_refl Equal_refl trafficSelectorEqual_refl)

section \<open>The retry loop: where it stops\<close>

lemma retry_from_stops:
  assumes "\<And>j s. j < m \<Longrightarrow> P j s \<Longrightarrow>
             fst (f (i + j) s) = Recoverable \<and> P (Suc j) (snd (f (i + j) s))"
    and "P 0 s" and "m \<le> k"
    and "\<And>s. P m s \<Longrightarrow> fst (f (i + m) s) \<noteq> Recoverable"
  shows "\<exists>s'. P m s' \<and> retry_from k f i s = (fst (f (i + m) s'), Suc (i + m), snd (f (i + m) s'))"
  using assms
proof (induction m arbitrary: i s k P)
  case 0
  then have "fst (f i s) \<noteq> Recoverable" by force
  then have "retry_from k f i s = (fst (f i s), Suc i, snd (f i s))"
    by (cases k; cases "f i s"; cases "fst (f i s)") auto
  with 0 show ?case by auto
next
  case (Suc m)
  from Suc.prems(3) obtain k' where k: "k = Suc k'" "m \<le> k'"
    by (cases k) auto
  from Suc.prems(1) [of 0 s] Suc.prems(2)
  have r: "fst (f i s) = Recoverable" and p1: "P (Suc 0) (snd (f i s))"
    by auto
  have step: "retry_from k f i s = retry_from k' f (Suc i) (snd (f i s))"
    using r k by (cases "f i s") auto
  have "\<exists>s'. (\<lambda>j. P (Suc j)) m s' \<and> retry_from k' f (Suc i) (snd (f i s)) =
          (fst (f (Suc i + m) s'), Suc (Suc i + m), snd (f (Suc i + m) s'))"
  proof (rule Suc.IH)
    fix j s' assume "j < m" "P (Suc j) s'"
    then show "fst (f (Suc i + j) s') = Recoverable \<and> P (Suc (Suc j)) (snd (f (Suc i + j) s'))"
      using Suc.prems(1) [of "Suc j" s'] by simp
  next
    show "P (Suc 0) (snd (f i s))" by (rule p1)
    show "m \<le> k'" by (rule k)
  next
    fix s' assume "P (Suc m) s'"
    then show "fst (f (Suc i + m) s') \<noteq> Recoverable"
      using Suc.prems(4) [of s'] by simp
  qed
  with step show ?case by simp
qed

lemma retry_from_exhausted:
  assumes "\<And>j s. j \<le> k \<Longrightarrow> P j s \<Longrightarrow>
             fst (f (i + j) s) = Recoverable \<and> P (Suc j) (snd (f (i + j) s))"
    and "P 0 s"
  shows "\<exists>s'. P (Suc k) s' \<and> retry_from k f i s = (Recoverable, Suc (i + k), s')"
  using assms
proof (induction k arbitrary: i s P)
  case 0
  from 0(1) [of 0 s] 0(2) show ?case
    by (cases "f i s") auto
next
  case (Suc k)
  from Suc.prems(1) [of 0 s] Suc.prems(2)
  have r: "fst (f i s) = Recoverable" and p1: "P (Suc 0) (snd (f i s))"
    by auto
  have step: "retry_from (Suc k) f i s = retry_from k f (Suc i) (snd (f i s))"
    using r by (cases "f i s") auto
  have "\<exists>s'. (\<lambda>j. P (Suc j)) (Suc k) s' \<and> retry_from k f (Suc i) (snd (f i s)) =
          (Recoverable, Suc (Suc i + k), s')"
  proof (rule Suc.IH)
    fix j s' assume "j \<le> k" "P (Suc j) s'"
    then show "fst (f (Suc i + j) s') = Recoverable \<and> P (Suc (Suc j)) (snd (f (Suc i + j) s'))"
      using Suc.prems(1) [of "Suc j" s'] by simp
  next
    show "P (Suc 0) (snd (f i s))" by (rule p1)
  qed
  with step show ?case by simp
qed

lemma retry_from_count_gt: "i < fst (snd (retry_from k f i s))"
proof (induction k arbitrary: i s)
  case 0
  show ?case by (cases "f i s") simp
next
  case (Suc k)
  obtain a s' where f: "f i s = (a, s')" by (cases "f i s")
  show ?case
  proof (cases a)
    case Recoverable
    with f have "retry_from (Suc k) f i s = retry_from k f (Suc i) s'" by simp
    with Suc [of "Suc i" s'] show ?thesis by simp
  qed (use f in simp_all)
qed

lemma retry_from_skip:
  assumes "\<forall>j<m. \<forall>s. fst (f (i + j) s) = Recoverable" and "m \<le> k"
  shows "\<exists>s'. retry_from k f i s = retry_from (k - m) f (i + m) s'"
  using assms
proof (induction m arbitrary: i s k)
  case 0
  then show ?case by auto
next
  case (Suc m)
  from Suc.prems(2) obtain k' where k: "k = Suc k'" "m \<le> k'" by (cases k) auto
  from Suc.prems(1) have "fst (f i s) = Recoverable" by force
  then have step: "retry_from k f i s = retry_from k' f (Suc i) (snd (f i s))"
    using k by (cases "f i s") auto
  have "\<forall>j<m. \<forall>s. fst (f (Suc i + j) s) = Recoverable"
    using Suc.prems(1) by fastforce
  from Suc.IH [OF this k(2), of "snd (f i s)"] step k show ?case by simp
qed

lemma retry_from_retried:
  assumes "\<forall>j\<le>i. \<forall>s. fst (f j s) = Recoverable" and "i < k"
  shows "Suc i < fst (snd (retry_from k f 0 s))"
proof -
  have "\<forall>j<Suc i. \<forall>s. fst (f (0 + j) s) = Recoverable"
    using assms(1) by simp
  from retry_from_skip [OF this, of k s] assms(2)
  obtain s' where "retry_from k f 0 s = retry_from (k - Suc i) f (Suc i) s'"
    by auto
  then show ?thesis
    using retry_from_count_gt [of "Suc i" "k - Suc i" f s'] by simp
qed

lemma retry_from_calls:
  assumes "\<And>j s. Calls (snd (f j s)) = Calls s @ [c]"
  shows "Calls (snd (snd (retry_from k f i s))) =
           Calls s @ replicate (fst (snd (retry_from k f i s)) - i) c"
proof (induction k arbitrary: i s)
  case 0
  obtain a s' where f: "f i s = (a, s')" by (cases "f i s")
  with assms [of i s] show ?case by simp
next
  case (Suc k)
  obtain a s' where f: "f i s = (a, s')" by (cases "f i s")
  from assms [of i s] f have c: "Calls s' = Calls s @ [c]" by simp
  show ?case
  proof (cases a)
    case Recoverable
    with f have r: "retry_from (Suc k) f i s = retry_from k f (Suc i) s'" by simp
    have "Suc i < fst (snd (retry_from k f (Suc i) s'))"
      by (rule retry_from_count_gt)
    then have "fst (snd (retry_from k f (Suc i) s')) - i
                 = Suc (fst (snd (retry_from k f (Suc i) s')) - Suc i)"
      by simp
    with Suc [of "Suc i" s'] r c show ?thesis
      by (simp add: replicate_append_same)
  qed (use f c in simp_all)
qed


section \<open>Create and its retries\<close>

lemma ap_attempt_failed:
  assumes "err (add_res a)" "httpRes (add_res a) = Some h"
  shows "ap_Create_attempt plan a resp =
     (if StatusCode h = 409 \<or> (StatusCode h = 400 \<and> Contains (Body h) invalid_ids_message)
      then (Recoverable, call AddRule resp)
      else (Unrecoverable, AddError ''Error creating access policy'' (call AddRule resp)))"
  using assms by (auto simp: ap_Create_attempt_def Let_def)

lemma ap_attempt_calls: "Calls (snd (ap_Create_attempt plan a resp)) = Calls resp @ [AddRule]"
  by (simp add: ap_Create_attempt_def call_def AddError_def Let_def split: option.splits)

lemma ap_Create_calls:
  assumes "\<not> HasError pd"
  shows "Calls (ap_Create pd plan answers) =
     replicate (fst (snd (retry_Do 6 (\<lambda>i. ap_Create_attempt plan (answers i))
                            \<lparr>Diagnostics = pd, State = Untouched, Calls = []\<rparr>))) AddRule"
proof -
  let ?f = "\<lambda>i. ap_Create_attempt plan (answers i)"
  let ?s = "\<lparr>Diagnostics = pd, State = Untouched, Calls = []\<rparr> :: accessPolicyResourceModel response"
  obtain a n resp where r: "retry_Do 6 ?f ?s = (a, n, resp)"
    by (cases "retry_Do 6 ?f ?s")
  have "Calls (snd (snd (retry_from 5 ?f 0 ?s))) =
          Calls ?s @ replicate (fst (snd (retry_from 5 ?f 0 ?s)) - 0) AddRule"
    by (rule retry_from_calls) (rule ap_attempt_calls)
  with r have "Calls resp = replicate n AddRule"
    by (simp add: retry_Do_def)
  with r assms show ?thesis
    by (simp add: ap_Create_def AddError_def)
qed

lemma ap_Create_retried:
  assumes "\<not> HasError pd" "i < 5"
    and "\<forall>j\<le>i. failed_with (add_res (answers j))
           (\<lambda>h. StatusCode h = 409 \<or> (StatusCode h = 400 \<and> Contains (Body h) invalid_ids_message))"
  shows "Suc i < length (Calls (ap_Create pd plan answers))"
proof -
  let ?f = "\<lambda>i. ap_Create_attempt plan (answers i)"
  have "\<forall>j\<le>i. \<forall>s. fst (?f j s) = Recoverable"
  proof (intro allI impI)
    fix j and s :: "accessPolicyResourceModel response"
    assume "j \<le> i"
    with assms(3) obtain h where "err (add_res (answers j))" "httpRes (add_res (answers j)) = Some h"
      "StatusCode h = 409 \<or> (StatusCode h = 400 \<and> Contains (Body h) invalid_ids_message)"
      by (auto simp: failed_with_def split: option.splits)
    then show "fst (?f j s) = Recoverable"
      by (simp add: ap_attempt_failed)
  qed
  then have "Suc i < fst (snd (retry_from 5 ?f 0 \<lparr>Diagnostics = pd, State = Untouched, Calls = []\<rparr>))"
    using assms(2) by (intro retry_from_retried) simp_all
  then show ?thesis
    by (simp add: ap_Create_calls [OF assms(1)] retry_Do_def)
qed

lemma ap_Create_stops:
  assumes "\<not> HasError pd" "i < 6"
    and "\<forall>j<i. failed_with (add_res (answers j))
           (\<lambda>h. StatusCode h = 409 \<or> (StatusCode h = 400 \<and> Contains (Body h) invalid_ids_message))"
    and "err (add_res (answers i))" "httpRes (add_res (answers i)) = Some h"
    and "\<not> (StatusCode h = 409 \<or> (StatusCode h = 400 \<and> Contains (Body h) invalid_ids_message))"
  shows "ap_Create pd plan answers =
           \<lparr>Diagnostics = pd @ [ErrorDiag ''Error creating access policy''], State = Untouched,
            Calls = replicate (Suc i) AddRule\<rparr>"
proof -
  let ?f = "\<lambda>i. ap_Create_attempt plan (answers i)"
  let ?P = "\<lambda>j (s :: accessPolicyResourceModel response).
              s = \<lparr>Diagnostics = pd, State = Untouched, Calls = replicate j AddRule\<rparr>"
  have "\<exists>s'. ?P i s' \<and> retry_from 5 ?f 0 \<lparr>Diagnostics = pd, State = Untouched, Calls = []\<rparr>
          = (fst (?f (0 + i) s'), Suc (0 + i), snd (?f (0 + i) s'))"
  proof (rule retry_from_stops)
    fix j and s :: "accessPolicyResourceModel response"
    assume j: "j < i" and s: "?P j s"
    with assms(3) obtain h' where "err (add_res (answers j))" "httpRes (add_res (answers j)) = Some h'"
      "StatusCode h' = 409 \<or> (StatusCode h' = 400 \<and> Contains (Body h') invalid_ids_message)"
      by (auto simp: failed_with_def split: option.splits)
    with s show "fst (?f (0 + j) s) = Recoverable \<and> ?P (Suc j) (snd (?f (0 + j) s))"
      by (simp add: ap_attempt_failed call_def replicate_append_same)
  next
    show "?P 0 \<lparr>Diagnostics = pd, State = Untouched, Calls = []\<rparr>" by simp
    show "i \<le> 5" using assms(2) by simp
  next
    fix s :: "accessPolicyResourceModel response" assume "?P i s"
    with assms(4-6) show "fst (?f (0 + i) s) \<noteq> Recoverable"
      by (simp add: ap_attempt_failed)
  qed
  then have "retry_Do 6 ?f \<lparr>Diagnostics = pd, State = Untouched, Calls = []\<rparr>
          = (Unrecoverable, Suc i,
             \<lparr>Diagnostics = pd @ [ErrorDiag ''Error creating access policy''], State = Untouched,
              Calls = replicate (Suc i) AddRule\<rparr>)"
    using assms(4-6)
    by (auto simp: retry_Do_def ap_attempt_failed call_def AddError_def replicate_append_same)
  with assms(1) show ?thesis
    by (simp add: ap_Create_def HasError_def)
qed


lemma pr_attempt_failed:
  assumes "err (addpr_res a)" "httpRes (addpr_res a) = Some h"
  shows "pr_Create_attempt a resp =
     (if StatusCode h = 409 \<or> StatusCode h = 429
      then (Recoverable, call AddPrivateResource resp)
      else (Unrecoverable, call AddPrivateResource resp))"
  using assms by (auto simp: pr_Create_attempt_def Let_def)

lemma pr_attempt_calls:
  "Calls (snd (pr_Create_attempt a resp)) = Calls resp @ [AddPrivateResource]"
  by (simp add: pr_Create_attempt_def call_def Let_def split: option.splits)

lemma pr_Create_calls:
  assumes "\<not> HasError pd" "\<not> HasError fd"
  shows "Calls (response_of (pr_Create pd plan fd answers)) =
     replicate (fst (snd (retry_Do 3 (\<lambda>i. pr_Create_attempt (answers i))
                            \<lparr>Diagnostics = pd, State = Untouched, Calls = []\<rparr>)))
       AddPrivateResource"
proof -
  let ?f = "\<lambda>i. pr_Create_attempt (answers i)"
  let ?s = "\<lparr>Diagnostics = pd, State = Untouched, Calls = []\<rparr>
              :: privateResourceResourceModel response"
  obtain a n resp where r: "retry_Do 3 ?f ?s = (a, n, resp)"
    by (cases "retry_Do 3 ?f ?s")
  have "Calls (snd (snd (retry_from 2 ?f 0 ?s))) =
          Calls ?s @ replicate (fst (snd (retry_from 2 ?f 0 ?s)) - 0) AddPrivateResource"
    by (rule retry_from_calls) (rule pr_attempt_calls)
  with r have "Calls resp = replicate n AddPrivateResource"
    by (simp add: retry_Do_def)
  with r assms show ?thesis
    by (cases a) (simp_all add: pr_Create_def AddError_def)
qed

lemma pr_Create_retried:
  assumes "\<not> HasError pd" "\<not> HasError fd" "i < 2"
    and "\<forall>j\<le>i. failed_with (addpr_res (answers j)) (\<lambda>h. StatusCode h = 409 \<or> StatusCode h = 429)"
  shows "Suc i < length (Calls (response_of (pr_Create pd plan fd answers)))"
proof -
  let ?f = "\<lambda>i. pr_Create_attempt (answers i)"
  have "\<forall>j\<le>i. \<forall>s. fst (?f j s) = Recoverable"
  proof (intro allI impI)
    fix j and s :: "privateResourceResourceModel response"
    assume "j \<le> i"
    with assms(4) obtain h where "err (addpr_res (answers j))"
      "httpRes (addpr_res (answers j)) = Some h" "StatusCode h = 409 \<or> StatusCode h = 429"
      by (auto simp: failed_with_def split: option.splits)
    then show "fst (?f j s) = Recoverable"
      by (simp add: pr_attempt_failed)
  qed
  then have "Suc i < fst (snd (retry_from 2 ?f 0 \<lparr>Diagnostics = pd, State = Untouched, Calls = []\<rparr>))"
    using assms(3) by (intro retry_from_retried) simp_all
  then show ?thesis
    by (simp add: pr_Create_calls [OF assms(1,2)] retry_Do_def)
qed

lemma pr_Create_stops:
  assumes "\<not> HasError pd" "\<not> HasError fd" "i < 3"
    and "\<forall>j<i. failed_with (addpr_res (answers j)) (\<lambda>h. StatusCode h = 409 \<or> StatusCode h = 429)"
    and "err (addpr_res (answers i))" "httpRes (addpr_res (answers i)) = Some h"
    and "\<not> (StatusCode h = 409 \<or> StatusCode h = 429)"
  shows "pr_Create pd plan fd answers =
           Returns \<lparr>Diagnostics = pd @ [ErrorDiag ''Error creating private resource''],
                    State = Untouched, Calls = replicate (Suc i) AddPrivateResource\<rparr>"
proof -
  let ?f = "\<lambda>i. pr_Create_attempt (answers i)"
  let ?P = "\<lambda>j (s :: privateResourceResourceModel response).
              s = \<lparr>Diagnostics = pd, State = Untouched, Calls = replicate j AddPrivateResource\<rparr>"
  have "\<exists>s'. ?P i s' \<and> retry_from 2 ?f 0 \<lparr>Diagnostics = pd, State = Untouched, Calls = []\<rparr>
          = (fst (?f (0 + i) s'), Suc (0 + i), snd (?f (0 + i) s'))"
  proof (rule retry_from_stops)
    fix j and s :: "privateResourceResourceModel response"
    assume j: "j < i" and s: "?P j s"
    with assms(4) obtain h' where "err (addpr_res (answers j))"
      "httpRes (addpr_res (answers j)) = Some h'" "StatusCode h' = 409 \<or> StatusCode h' = 429"
      by (auto simp: failed_with_def split: option.splits)
    with s show "fst (?f (0 + j) s) = Recoverable \<and> ?P (Suc j) (snd (?f (0 + j) s))"
      by (simp add: pr_attempt_failed call_def replicate_append_same)
  next
    show "?P 0 \<lparr>Diagnostics = pd, State = Untouched, Calls = []\<rparr>" by simp
    show "i \<le> 2" using assms(3) by simp
  next
    fix s :: "privateResourceResourceModel response" assume "?P i s"
    with assms(5-7) show "fst (?f (0 + i) s) \<noteq> Recoverable"
      by (simp add: pr_attempt_failed)
  qed
  then have "retry_Do 3 ?f \<lparr>Diagnostics = pd, State = Untouched, Calls = []\<rparr>
          = (Unrecoverable, Suc i,
             \<lparr>Diagnostics = pd, State = Untouched,
              Calls = replicate (Suc i) AddPrivateResource\<rparr>)"
    using assms(5-7)
    by (auto simp: retry_Do_def pr_attempt_failed call_def replicate_append_same)
  with assms(1,2) show ?thesis
    by (simp add: pr_Create_def AddError_def)
qed

lemma ap_Create_exhausted:
  assumes "\<not> HasError pd"
    and "\<forall>j\<le>5. failed_with (add_res (answers j))
           (\<lambda>h. StatusCode h = 409 \<or> (StatusCode h = 400 \<and> Contains (Body h) invalid_ids_message))"
  shows "ap_Create pd plan answers =
           \<lparr>Diagnostics = pd @ [ErrorDiag ''Error creating access policy''], State = Untouched,
            Calls = replicate 6 AddRule\<rparr>"
proof -
  let ?f = "\<lambda>i. ap_Create_attempt plan (answers i)"
  let ?P = "\<lambda>j (s :: accessPolicyResourceModel response).
              s = \<lparr>Diagnostics = pd, State = Untouched, Calls = replicate j AddRule\<rparr>"
  have "\<exists>s'. ?P (Suc 5) s' \<and> retry_from 5 ?f 0 \<lparr>Diagnostics = pd, State = Untouched, Calls = []\<rparr>
          = (Recoverable, Suc (0 + 5), s')"
  proof (rule retry_from_exhausted)
    fix j and s :: "accessPolicyResourceModel response"
    assume j: "j \<le> 5" and s: "?P j s"
    with assms(2) obtain h' where "err (add_res (answers j))" "httpRes (add_res (answers j)) = Some h'"
      "StatusCode h' = 409 \<or> (StatusCode h' = 400 \<and> Contains (Body h') invalid_ids_message)"
      by (auto simp: failed_with_def split: option.splits)
    with s show "fst (?f (0 + j) s) = Recoverable \<and> ?P (Suc j) (snd (?f (0 + j) s))"
      by (simp add: ap_attempt_failed call_def replicate_append_same)
  next
    show "?P 0 \<lparr>Diagnostics = pd, State = Untouched, Calls = []\<rparr>" by simp
  qed
  then have "retry_Do 6 ?f \<lparr>Diagnostics = pd, State = Untouched, Calls = []\<rparr>
          = (Recoverable, 6, \<lparr>Diagnostics = pd, State = Untouched, Calls = replicate 6 AddRule\<rparr>)"
    by (auto simp: retry_Do_def)
  with assms(1) show ?thesis
    by (simp add: ap_Create_def AddError_def)
qed

lemma pr_Create_exhausted:
  assumes "\<not> HasError pd" "\<not> HasError fd"
    and "\<forall>j\<le>2. failed_with (addpr_res (answers j)) (\<lambda>h. StatusCode h = 409 \<or> StatusCode h = 429)"
  shows "pr_Create pd plan fd answers =
           Returns \<lparr>Diagnostics = pd @ [ErrorDiag ''Error creating private resource''],
                    State = Untouched, Calls = replicate 3 AddPrivateResource\<rparr>"
proof -
  let ?f = "\<lambda>i. pr_Create_attempt (answers i)"
  let ?P = "\<lambda>j (s :: privateResourceResourceModel response).
              s = \<lparr>Diagnostics = pd, State = Untouched, Calls = replicate j AddPrivateResource\<rparr>"
  have "\<exists>s'. ?P (Suc 2) s' \<and> retry_from 2 ?f 0 \<lparr>Diagnostics = pd, State = Untouched, Calls = []\<rparr>
          = (Recoverable, Suc (0 + 2), s')"
  proof (rule retry_from_exhausted)
    fix j and s :: "privateResourceResourceModel response"
    assume j: "j \<le> 2" and s: "?P j s"
    with assms(3) obtain h' where "err (addpr_res (answers j))"
      "httpRes (addpr_res (answers j)) = Some h'" "StatusCode h' = 409 \<or> StatusCode h' = 429"
      by (auto simp: failed_with_def split: option.splits)
    with s show "fst (?f (0 + j) s) = Recoverable \<and> ?P (Suc j) (snd (?f (0 + j) s))"
      by (simp add: pr_attempt_failed call_def replicate_append_same)
  next
    show "?P 0 \<lparr>Diagnostics = pd, State = Untouched, Calls = []\<rparr>" by simp
  qed
  then have "retry_Do 3 ?f \<lparr>Diagnostics = pd, State = Untouched, Calls = []\<rparr>
          = (Recoverable, 3,
             \<lparr>Diagnostics = pd, State = Untouched, Calls = replicate 3 AddPrivateResource\<rparr>)"
    by (auto simp: retry_Do_def)
  with assms(1,2) show ?thesis
    by (simp add: pr_Create_def AddError_def)
qed


text \<open>
  Claim C1 as stated fails on \<open>Create\<close> of the access policy: a failure with
  status 429 is not retried (one call, then the error diagnostic), and a
  failure with status 400 whose body holds the "invalid data" text is retried
  until the six attempts are used up.
\<close>

theorem Create_retries_counterexample:
  "ap_Create [] ap_example (AddRule_fails 429 ''slow down'') =
     \<lparr>Diagnostics = [ErrorDiag ''Error creating access policy''], State = Untouched,
      Calls = [AddRule]\<rparr>
   \<and> Calls (ap_Create [] ap_example
        (AddRule_fails 400 ''invalid data passed. the ID's provided for sources'')) =
       [AddRule, AddRule, AddRule, AddRule, AddRule, AddRule]"
  by (simp add: ap_Create_def retry_Do_def ap_Create_attempt_def AddRule_fails_def
        answer_failed_def invalid_ids_message_def HasError_def call_def AddError_def
        eval_nat_numeral Let_def)

text \<open>
  Claim C1, amended. Let the calls before call \<open>i\<close> have failed with retried
  answers and let call \<open>i\<close> fail with an HTTP response. \<open>Create\<close> of the private
  resource makes at most three attempts and retries the failure if and only if
  the status is 409 or 429 and the call was not the third; \<open>Create\<close> of the
  access policy makes at most six attempts and retries the failure if and only
  if the status is 409, or 400 with a body that contains the "invalid data"
  text, and the call was not the sixth. In both, every other failing status,
  and a retried status at the last attempt, ends the loop at that call and is
  reported as an error diagnostic, and the state is not set.
\<close>

theorem Create_retries:
  assumes "\<not> HasError plan_diags" "\<not> HasError format_diags"
  shows "(i < 6
          \<and> (\<forall>j<i. failed_with (add_res (ap_answers j))
                 (\<lambda>h. StatusCode h = 409
                    \<or> (StatusCode h = 400 \<and> Contains (Body h) invalid_ids_message)))
          \<and> err (add_res (ap_answers i)) \<and> httpRes (add_res (ap_answers i)) = Some h
          \<longrightarrow> (Suc i < length (Calls (ap_Create plan_diags ap ap_answers))
                \<longleftrightarrow> (StatusCode h = 409
                      \<or> (StatusCode h = 400 \<and> Contains (Body h) invalid_ids_message))
                    \<and> i < 5)
              \<and> (\<not> (StatusCode h = 409
                      \<or> (StatusCode h = 400 \<and> Contains (Body h) invalid_ids_message))
                  \<or> i = 5
                  \<longrightarrow> ap_Create plan_diags ap ap_answers =
                        \<lparr>Diagnostics = plan_diags @ [ErrorDiag ''Error creating access policy''],
                         State = Untouched, Calls = replicate (Suc i) AddRule\<rparr>))
       \<and> (i < 3
          \<and> (\<forall>j<i. failed_with (addpr_res (pr_answers j))
                 (\<lambda>h. StatusCode h = 409 \<or> StatusCode h = 429))
          \<and> err (addpr_res (pr_answers i)) \<and> httpRes (addpr_res (pr_answers i)) = Some h
          \<longrightarrow> (Suc i < length (Calls (response_of
                                   (pr_Create plan_diags pr format_diags pr_answers)))
                \<longleftrightarrow> (StatusCode h = 409 \<or> StatusCode h = 429) \<and> i < 2)
              \<and> (\<not> (StatusCode h = 409 \<or> StatusCode h = 429) \<or> i = 2
                  \<longrightarrow> pr_Create plan_diags pr format_diags pr_answers =
                        Returns \<lparr>Diagnostics = plan_diags
                                   @ [ErrorDiag ''Error creating private resource''],
                                 State = Untouched,
                                 Calls = replicate (Suc i) AddPrivateResource\<rparr>))"
proof (intro conjI impI)
  let ?R = "\<lambda>h. StatusCode h = 409 \<or> (StatusCode h = 400 \<and> Contains (Body h) invalid_ids_message)"
  assume a: "i < 6 \<and> (\<forall>j<i. failed_with (add_res (ap_answers j)) ?R)
          \<and> err (add_res (ap_answers i)) \<and> httpRes (add_res (ap_answers i)) = Some h"
  have upto: "\<forall>j\<le>i. failed_with (add_res (ap_answers j)) ?R" if "?R h"
    using a that by (auto simp: failed_with_def le_less)
  have stop: "ap_Create plan_diags ap ap_answers =
                \<lparr>Diagnostics = plan_diags @ [ErrorDiag ''Error creating access policy''],
                 State = Untouched, Calls = replicate (Suc i) AddRule\<rparr>" if "\<not> ?R h \<or> i = 5"
  proof (cases "?R h")
    case False
    with assms(1) a show ?thesis
      by (intro ap_Create_stops [where h = h]) simp_all
  next
    case True
    with that have i: "i = 5" by simp
    with upto [OF True] have "\<forall>j\<le>5. failed_with (add_res (ap_answers j)) ?R" by simp
    from ap_Create_exhausted [OF assms(1) this] i show ?thesis by simp
  qed
  then show "\<not> ?R h \<or> i = 5 \<Longrightarrow> ap_Create plan_diags ap ap_answers =
                \<lparr>Diagnostics = plan_diags @ [ErrorDiag ''Error creating access policy''],
                 State = Untouched, Calls = replicate (Suc i) AddRule\<rparr>" .
  show "Suc i < length (Calls (ap_Create plan_diags ap ap_answers)) \<longleftrightarrow> ?R h \<and> i < 5"
  proof
    assume r: "?R h \<and> i < 5"
    with assms(1) upto show "Suc i < length (Calls (ap_Create plan_diags ap ap_answers))"
      by (intro ap_Create_retried) simp_all
  next
    assume l: "Suc i < length (Calls (ap_Create plan_diags ap ap_answers))"
    show "?R h \<and> i < 5"
    proof (rule ccontr)
      assume "\<not> (?R h \<and> i < 5)"
      with a have "\<not> ?R h \<or> i = 5" by auto
      from stop [OF this] l show False by simp
    qed
  qed
next
  let ?R = "\<lambda>h. StatusCode h = 409 \<or> StatusCode h = 429"
  assume a: "i < 3 \<and> (\<forall>j<i. failed_with (addpr_res (pr_answers j)) ?R)
          \<and> err (addpr_res (pr_answers i)) \<and> httpRes (addpr_res (pr_answers i)) = Some h"
  have upto: "\<forall>j\<le>i. failed_with (addpr_res (pr_answers j)) ?R" if "?R h"
    using a that by (auto simp: failed_with_def le_less)
  have stop: "pr_Create plan_diags pr format_diags pr_answers =
                Returns \<lparr>Diagnostics = plan_diags @ [ErrorDiag ''Error creating private resource''],
                         State = Untouched, Calls = replicate (Suc i) AddPrivateResource\<rparr>"
    if "\<not> ?R h \<or> i = 2"
  proof (cases "?R h")
    case False
    with assms a show ?thesis
      by (intro pr_Create_stops [where h = h]) simp_all
  next
    case True
    with that have i: "i = 2" by simp
    with upto [OF True] have "\<forall>j\<le>2. failed_with (addpr_res (pr_answers j)) ?R" by simp
    from pr_Create_exhausted [OF assms this] i show ?thesis by simp
  qed
  then show "\<not> ?R h \<or> i = 2 \<Longrightarrow> pr_Create plan_diags pr format_diags pr_answers =
                Returns \<lparr>Diagnostics = plan_diags @ [ErrorDiag ''Error creating private resource''],
                         State = Untouched, Calls = replicate (Suc i) AddPrivateResource\<rparr>" .
  show "Suc i < length (Calls (response_of (pr_Create plan_diags pr format_diags pr_answers)))
          \<longleftrightarrow> ?R h \<and> i < 2"
  proof
    assume r: "?R h \<and> i < 2"
    with assms upto
    show "Suc i < length (Calls (response_of (pr_Create plan_diags pr format_diags pr_answers)))"
      by (intro pr_Create_retried) simp_all
  next
    assume l: "Suc i < length (Calls (response_of
                 (pr_Create plan_diags pr format_diags pr_answers)))"
    show "?R h \<and> i < 2"
    proof (rule ccontr)
      assume "\<not> (?R h \<and> i < 2)"
      with a have "\<not> ?R h \<or> i = 2" by auto
      from stop [OF this] l show False by simp
    qed
  qed
qed

theorem Create_retries_witness:
  "\<not> HasError []
   \<and> failed_with (add_res (AddRule_conflict_then 500 0))
        (\<lambda>h. StatusCode h = 409 \<or> (StatusCode h = 400 \<and> Contains (Body h) invalid_ids_message))
   \<and> ap_Create [] ap_example (AddRule_conflict_then 500) =
       \<lparr>Diagnostics = [ErrorDiag ''Error creating access policy''], State = Untouched,
        Calls = [AddRule, AddRule]\<rparr>
   \<and> Suc 1 < length (Calls (ap_Create [] ap_example (AddRule_conflict_then 409)))
   \<and> ap_Create [] ap_example (AddRule_conflict_then 409) =
       \<lparr>Diagnostics = [ErrorDiag ''Error creating access policy''], State = Untouched,
        Calls = [AddRule, AddRule, AddRule, AddRule, AddRule, AddRule]\<rparr>
   \<and> failed_with (addpr_res (AddPrivateResource_conflict_then 500 0))
        (\<lambda>h. StatusCode h = 409 \<or> StatusCode h = 429)
   \<and> pr_Create [] pr_example [] (AddPrivateResource_conflict_then 500) =
       Returns \<lparr>Diagnostics = [ErrorDiag ''Error creating private resource''],
                State = Untouched, Calls = [AddPrivateResource, AddPrivateResource]\<rparr>
   \<and> Suc 1 < length (Calls (response_of
        (pr_Create [] pr_example [] (AddPrivateResource_conflict_then 429))))
   \<and> pr_Create [] pr_example [] (AddPrivateResource_conflict_then 429) =
       Returns \<lparr>Diagnostics = [ErrorDiag ''Error creating private resource''],
                State = Untouched,
                Calls = [AddPrivateResource, AddPrivateResource, AddPrivateResource]\<rparr>"
  using Create_retries [where plan_diags = "[]" and format_diags = "[]" and i = 1
          and ap_answers = "AddRule_conflict_then 500" and ap = ap_example
          and pr_answers = "AddPrivateResource_conflict_then 500" and pr = pr_example
          and h = "\<lparr>StatusCode = 500, Body = ''busy''\<rparr>"]
        Create_retries [where plan_diags = "[]" and format_diags = "[]" and i = 1
          and ap_answers = "AddRule_conflict_then 409" and ap = ap_example
          and pr_answers = "AddPrivateResource_conflict_then 429" and pr = pr_example
          and h = "\<lparr>StatusCode = 409, Body = ''busy''\<rparr>"]
        Create_retries [where plan_diags = "[]" and format_diags = "[]" and i = 1
          and ap_answers = "AddRule_conflict_then 409" and ap = ap_example
          and pr_answers = "AddPrivateResource_conflict_then 429" and pr = pr_example
          and h = "\<lparr>StatusCode = 429, Body = ''busy''\<rparr>"]
        Create_retries [where plan_diags = "[]" and format_diags = "[]" and i = 5
          and ap_answers = "AddRule_conflict_then 409" and ap = ap_example
          and pr_answers = "AddPrivateResource_conflict_then 429" and pr = pr_example
          and h = "\<lparr>StatusCode = 409, Body = ''busy''\<rparr>"]
        Create_retries [where plan_diags = "[]" and format_diags = "[]" and i = 2
          and ap_answers = "AddRule_conflict_then 409" and ap = ap_example
          and pr_answers = "AddPrivateResource_conflict_then 429" and pr = pr_example
          and h = "\<lparr>StatusCode = 429, Body = ''busy''\<rparr>"]
  by (simp add: HasError_def failed_with_def AddRule_conflict_then_def AddRule_fails_def
        AddPrivateResource_conflict_then_def AddPrivateResource_fails_def answer_failed_def
        eval_nat_numeral)



section \<open>Delete and an answer "not found"\<close>

lemma ap_Delete_not_found:
  assumes "\<not> HasError sd" "i < 3"
    and "\<forall>j<i. err (answers j) \<and> status_is (answers j) 409"
    and "status_is (answers i) 404"
  shows "ap_Delete sd st answers =
           \<lparr>Diagnostics = sd, State = Untouched,
            Calls = replicate (Suc i) (DeleteRule (ValueInt64 (ap_ID st)))\<rparr>"
proof -
  let ?c = "DeleteRule (ValueInt64 (ap_ID st))"
  let ?f = "\<lambda>i. ap_Delete_attempt (ValueInt64 (ap_ID st)) (answers i)"
  let ?P = "\<lambda>j (s :: accessPolicyResourceModel response). s = \<lparr>Diagnostics = sd, State = Untouched, Calls = replicate j ?c\<rparr>"
  have "\<exists>s'. ?P i s' \<and> retry_from 2 ?f 0 \<lparr>Diagnostics = sd, State = Untouched, Calls = []\<rparr>
          = (fst (?f (0 + i) s'), Suc (0 + i), snd (?f (0 + i) s'))"
  proof (rule retry_from_stops)
    fix j and s :: "accessPolicyResourceModel response" assume "j < i" "?P j s"
    with assms(3) show "fst (?f (0 + j) s) = Recoverable \<and> ?P (Suc j) (snd (?f (0 + j) s))"
      by (auto simp: ap_Delete_attempt_def call_def status_is_def Let_def replicate_append_same
            split: option.splits)
  next
    show "?P 0 \<lparr>Diagnostics = sd, State = Untouched, Calls = []\<rparr>" by simp
    show "i \<le> 2" using assms(2) by simp
  next
    fix s :: "accessPolicyResourceModel response" assume "?P i s"
    with assms(4) show "fst (?f (0 + i) s) \<noteq> Recoverable"
      by (simp add: ap_Delete_attempt_def Let_def)
  qed
  then have "retry_Do 3 ?f \<lparr>Diagnostics = sd, State = Untouched, Calls = []\<rparr>
          = (Nil, Suc i, \<lparr>Diagnostics = sd, State = Untouched, Calls = replicate (Suc i) ?c\<rparr>)"
    using assms(4)
    by (auto simp: retry_Do_def ap_Delete_attempt_def call_def Let_def replicate_append_same)
  with assms(1) show ?thesis
    by (simp add: ap_Delete_def)
qed

lemma rc_Delete_not_found:
  assumes "\<not> HasError sd" "i < 6"
    and "\<forall>j<i. status_is (answers j) 429"
    and "status_is (answers i) 404"
  shows "rc_Delete sd st answers =
           \<lparr>Diagnostics = sd, State = Untouched,
            Calls = replicate (Suc i) (DeleteConnector (ValueInt64 (rc_ID st)))\<rparr>"
proof -
  let ?c = "DeleteConnector (ValueInt64 (rc_ID st))"
  let ?f = "\<lambda>i. rc_Delete_attempt (ValueInt64 (rc_ID st)) (answers i)"
  let ?P = "\<lambda>j (s :: resourceConnectorAgentResourceModel response). s = \<lparr>Diagnostics = sd, State = Untouched, Calls = replicate j ?c\<rparr>"
  have nf: "\<not> status_is (answers i) 429"
    using assms(4) by (auto simp: status_is_def split: option.splits)
  have "\<exists>s'. ?P i s' \<and> retry_from 5 ?f 0 \<lparr>Diagnostics = sd, State = Untouched, Calls = []\<rparr>
          = (fst (?f (0 + i) s'), Suc (0 + i), snd (?f (0 + i) s'))"
  proof (rule retry_from_stops)
    fix j and s :: "resourceConnectorAgentResourceModel response" assume "j < i" "?P j s"
    with assms(3) show "fst (?f (0 + j) s) = Recoverable \<and> ?P (Suc j) (snd (?f (0 + j) s))"
      by (auto simp: rc_Delete_attempt_def call_def Let_def replicate_append_same)
  next
    show "?P 0 \<lparr>Diagnostics = sd, State = Untouched, Calls = []\<rparr>" by simp
    show "i \<le> 5" using assms(2) by simp
  next
    fix s :: "resourceConnectorAgentResourceModel response" assume "?P i s"
    with assms(4) nf show "fst (?f (0 + i) s) \<noteq> Recoverable"
      by (simp add: rc_Delete_attempt_def Let_def)
  qed
  then have "retry_Do 6 ?f \<lparr>Diagnostics = sd, State = Untouched, Calls = []\<rparr>
          = (Nil, Suc i, \<lparr>Diagnostics = sd, State = Untouched, Calls = replicate (Suc i) ?c\<rparr>)"
    using assms(4) nf
    by (auto simp: retry_Do_def rc_Delete_attempt_def call_def Let_def replicate_append_same)
  with assms(1) show ?thesis
    by (simp add: rc_Delete_def)
qed

text \<open>
  Claim C4. In every \<open>Delete\<close>, an answer with status 404 ends the operation
  as a success: the response holds no diagnostic beyond those of decoding the
  state, and the call answered 404 is the last call. For the tunnel group, the
  private resource and the destination list that is the only call; for the
  access policy and the connector agent it may follow retried calls (answered
  409, respectively 429); \<open>Delete\<close> of the global settings issues no call.
\<close>

theorem Delete_not_found:
  assumes "\<not> HasError state_diags"
  shows "(status_is res 404 \<longrightarrow>
            ntg_Delete state_diags ntg res =
              Returns \<lparr>Diagnostics = state_diags, State = Untouched,
                       Calls = [DeleteNetworkTunnelGroup (ValueInt64 (ntg_Id ntg))]\<rparr>
          \<and> pr_Delete state_diags pr res =
              Returns \<lparr>Diagnostics = state_diags, State = Untouched,
                       Calls = [DeletePrivateResource (Atoi_value (ValueString (pr_ID pr)))]\<rparr>
          \<and> dl_Delete state_diags dl res =
              Returns \<lparr>Diagnostics = state_diags, State = Untouched,
                       Calls = [DeleteDestinationList (ValueInt64 (dl_Id dl))]\<rparr>)
       \<and> (i < 3 \<and> (\<forall>j<i. err (answers j) \<and> status_is (answers j) 409)
            \<and> status_is (answers i) 404 \<longrightarrow>
            ap_Delete state_diags ap answers =
              \<lparr>Diagnostics = state_diags, State = Untouched,
               Calls = replicate (Suc i) (DeleteRule (ValueInt64 (ap_ID ap)))\<rparr>)
       \<and> (i < 6 \<and> (\<forall>j<i. status_is (answers j) 429) \<and> status_is (answers i) 404 \<longrightarrow>
            rc_Delete state_diags rc answers =
              \<lparr>Diagnostics = state_diags, State = Untouched,
               Calls = replicate (Suc i) (DeleteConnector (ValueInt64 (rc_ID rc)))\<rparr>)
       \<and> Calls (gs_Delete state_diags gs) = []"
proof (intro conjI impI)
  assume "status_is res 404"
  then obtain h where h: "httpRes res = Some h" "StatusCode h = 404"
    by (auto simp: status_is_def split: option.splits)
  with assms show "ntg_Delete state_diags ntg res =
              Returns \<lparr>Diagnostics = state_diags, State = Untouched,
                       Calls = [DeleteNetworkTunnelGroup (ValueInt64 (ntg_Id ntg))]\<rparr>"
    by (simp add: ntg_Delete_def status_is_def Let_def)
  from h assms show "pr_Delete state_diags pr res =
              Returns \<lparr>Diagnostics = state_diags, State = Untouched,
                       Calls = [DeletePrivateResource (Atoi_value (ValueString (pr_ID pr)))]\<rparr>"
    by (simp add: pr_Delete_def Let_def)
  from h assms show "dl_Delete state_diags dl res =
              Returns \<lparr>Diagnostics = state_diags, State = Untouched,
                       Calls = [DeleteDestinationList (ValueInt64 (dl_Id dl))]\<rparr>"
    by (simp add: dl_Delete_def Let_def)
next
  assume "i < 3 \<and> (\<forall>j<i. err (answers j) \<and> status_is (answers j) 409)
            \<and> status_is (answers i) 404"
  with assms show "ap_Delete state_diags ap answers =
              \<lparr>Diagnostics = state_diags, State = Untouched,
               Calls = replicate (Suc i) (DeleteRule (ValueInt64 (ap_ID ap)))\<rparr>"
    by (intro ap_Delete_not_found) simp_all
next
  assume "i < 6 \<and> (\<forall>j<i. status_is (answers j) 429) \<and> status_is (answers i) 404"
  with assms show "rc_Delete state_diags rc answers =
              \<lparr>Diagnostics = state_diags, State = Untouched,
               Calls = replicate (Suc i) (DeleteConnector (ValueInt64 (rc_ID rc)))\<rparr>"
    by (intro rc_Delete_not_found) simp_all
next
  show "Calls (gs_Delete state_diags gs) = []"
    by (simp add: gs_Delete_def)
qed


theorem Delete_not_found_witness:
  "\<not> HasError []
   \<and> status_is (answer_failed 404 ''gone'') 404
   \<and> ntg_Delete [] ntg_example (answer_failed 404 ''gone'') =
       Returns \<lparr>Diagnostics = [], State = Untouched, Calls = [DeleteNetworkTunnelGroup 7]\<rparr>
   \<and> pr_Delete [] pr_example (answer_failed 404 ''gone'') =
       Returns \<lparr>Diagnostics = [], State = Untouched,
                Calls = [DeletePrivateResource (Atoi_value ''314'')]\<rparr>
   \<and> dl_Delete [] dl_example (answer_failed 404 ''gone'') =
       Returns \<lparr>Diagnostics = [], State = Untouched, Calls = [DeleteDestinationList 55]\<rparr>
   \<and> err (then_not_found 409 0) \<and> status_is (then_not_found 409 0) 409
   \<and> status_is (then_not_found 409 1) 404
   \<and> ap_Delete [] ap_example (then_not_found 409) =
       \<lparr>Diagnostics = [], State = Untouched, Calls = [DeleteRule 42, DeleteRule 42]\<rparr>
   \<and> status_is (then_not_found 429 0) 429 \<and> status_is (then_not_found 429 1) 404
   \<and> rc_Delete [] rc_example (then_not_found 429) =
       \<lparr>Diagnostics = [], State = Untouched, Calls = [DeleteConnector 3, DeleteConnector 3]\<rparr>"
  using Delete_not_found [where state_diags = "[]" and res = "answer_failed 404 ''gone''"
          and ntg = ntg_example and pr = pr_example and dl = dl_example and i = 1
          and answers = "then_not_found 409" and ap = ap_example and rc = rc_example]
        Delete_not_found [where state_diags = "[]" and res = "answer_failed 404 ''gone''"
          and ntg = ntg_example and pr = pr_example and dl = dl_example and i = 1
          and answers = "then_not_found 429" and ap = ap_example and rc = rc_example]
  by (simp add: HasError_def status_is_def answer_failed_def then_not_found_def
        ntg_example_def pr_example_def dl_example_def ap_example_def rc_example_def
        ValueInt64_def ValueString_def)

section \<open>Read and an answer "not found"\<close>

lemma rc_Read_not_found:
  assumes "\<not> HasError sd" "i < 6"
    and "\<forall>j<i. status_is (answers j) 429"
    and "status_is (answers i) 404"
  shows "rc_Read sd st answers loaded =
           \<lparr>Diagnostics = sd, State = Removed,
            Calls = replicate (Suc i) (GetConnector (ValueInt64 (rc_ID st)))\<rparr>"
proof -
  let ?c = "GetConnector (ValueInt64 (rc_ID st))"
  let ?f = "\<lambda>i. rc_Read_attempt (ValueInt64 (rc_ID st)) (answers i) (loaded i)"
  let ?P = "\<lambda>j (s :: resourceConnectorAgentResourceModel response).
              s = \<lparr>Diagnostics = sd, State = Untouched, Calls = replicate j ?c\<rparr>"
  have n: "\<And>j. status_is (answers j) 429 \<Longrightarrow> \<not> status_is (answers j) 404"
    by (auto simp: status_is_def split: option.splits)
  have "\<exists>s'. ?P i s' \<and> retry_from 5 ?f 0 \<lparr>Diagnostics = sd, State = Untouched, Calls = []\<rparr>
          = (fst (?f (0 + i) s'), Suc (0 + i), snd (?f (0 + i) s'))"
  proof (rule retry_from_stops)
    fix j and s :: "resourceConnectorAgentResourceModel response"
    assume "j < i" "?P j s"
    with assms(3) n show "fst (?f (0 + j) s) = Recoverable \<and> ?P (Suc j) (snd (?f (0 + j) s))"
      by (auto simp: rc_Read_attempt_def call_def Let_def replicate_append_same)
  next
    show "?P 0 \<lparr>Diagnostics = sd, State = Untouched, Calls = []\<rparr>" by simp
    show "i \<le> 5" using assms(2) by simp
  next
    fix s :: "resourceConnectorAgentResourceModel response" assume "?P i s"
    with assms(4) show "fst (?f (0 + i) s) \<noteq> Recoverable"
      by (simp add: rc_Read_attempt_def Let_def)
  qed
  then have "retry_Do 6 ?f \<lparr>Diagnostics = sd, State = Untouched, Calls = []\<rparr>
          = (Nil, Suc i, \<lparr>Diagnostics = sd, State = Removed, Calls = replicate (Suc i) ?c\<rparr>)"
    using assms(4)
    by (auto simp: retry_Do_def rc_Read_attempt_def call_def Let_def replicate_append_same)
  with assms(1) show ?thesis
    by (simp add: rc_Read_def)
qed

text \<open>
  Claim C3 as stated fails for two resources. \<open>Read\<close> of the global settings has
  no branch for the status 404: it reports an error and leaves the state alone.
  \<open>Read\<close> of the destination list searches the body of a failed answer for the
  "not found" text and does not look at the status: an answer with status 404
  and another body is reported as an error.
\<close>

theorem Read_not_found_counterexample:
  "status_is (answer_failed 404 ''gone'') 404
   \<and> gs_Read [] gs_current (answer_failed 404 ''gone'') [] =
       \<lparr>Diagnostics = [ErrorDiag ''Error retrieving global policy settings''],
        State = Untouched, Calls = [GetPolicySettings]\<rparr>
   \<and> dl_Read [] dl_example (answer_failed 404 ''gone'') ''allowed'' dests_answer =
       Returns \<lparr>Diagnostics = [ErrorDiag ''HTTP Response''], State = Untouched,
                Calls = [GetDestinationList 55]\<rparr>"
  by (simp add: status_is_def answer_failed_def gs_Read_def gs_FetchState_def HasError_def
        dl_Read_def dl_example_def ValueInt64_def destinationListNotFoundError_def
        AddError_def Let_def)

text \<open>
  Claim C3, amended. With a state that decodes without error: \<open>Read\<close> of the
  access policy and of the tunnel group remove the resource from the state and
  add no diagnostic when the answer has status 404, after that one call;
  \<open>Read\<close> of the private resource does so when the client returned the 404 as
  an error; \<open>Read\<close> of the connector agent does so when a 404 follows calls
  answered 429. \<open>Read\<close> of the destination list, on an error of the client,
  removes the resource exactly when the body of the answer contains the
  "not found" text, whatever the status, and reports an error otherwise.
  \<open>Read\<close> of the global settings reports every error of the client, a 404
  included, and leaves the state alone.
\<close>

theorem Read_not_found:
  assumes "\<not> HasError state_diags"
  shows "(status_is res 404 \<longrightarrow>
            ap_Read any_diags ap res ap_loaded =
              \<lparr>Diagnostics = [], State = Removed, Calls = [GetRule (ValueInt64 (ap_ID ap))]\<rparr>
          \<and> ntg_Read state_diags ntg res ntg_loaded =
              \<lparr>Diagnostics = state_diags, State = Removed,
               Calls = [GetNetworkTunnelGroup (ValueInt64 (ntg_Id ntg))]\<rparr>
          \<and> (err res \<longrightarrow>
               pr_Read state_diags pr res load_diags pr_loaded =
                 Returns \<lparr>Diagnostics = state_diags, State = Removed,
                          Calls = [GetPrivateResource (Atoi_value (ValueString (pr_ID pr)))]\<rparr>))
       \<and> (i < 6 \<and> (\<forall>j<i. status_is (answers j) 429) \<and> status_is (answers i) 404 \<longrightarrow>
            rc_Read state_diags rc answers rc_loaded =
              \<lparr>Diagnostics = state_diags, State = Removed,
               Calls = replicate (Suc i) (GetConnector (ValueInt64 (rc_ID rc)))\<rparr>)
       \<and> (err res \<and> httpRes res = Some h \<longrightarrow>
            dl_Read state_diags dl res name answer =
              (if Contains (Body h) destinationListNotFoundError
               then Returns \<lparr>Diagnostics = [], State = Removed,
                             Calls = [GetDestinationList (ValueInt64 (dl_Id dl))]\<rparr>
               else Returns \<lparr>Diagnostics = [ErrorDiag ''HTTP Response''], State = Untouched,
                             Calls = [GetDestinationList (ValueInt64 (dl_Id dl))]\<rparr>))
       \<and> (err res \<longrightarrow>
            gs_Read state_diags gs res settings =
              \<lparr>Diagnostics = state_diags @ [ErrorDiag ''Error retrieving global policy settings''],
               State = Untouched, Calls = [GetPolicySettings]\<rparr>)"
proof (intro conjI impI)
  assume nf: "status_is res 404"
  then show "ap_Read any_diags ap res ap_loaded =
              \<lparr>Diagnostics = [], State = Removed, Calls = [GetRule (ValueInt64 (ap_ID ap))]\<rparr>"
    by (simp add: ap_Read_def Let_def)
  from nf assms show "ntg_Read state_diags ntg res ntg_loaded =
              \<lparr>Diagnostics = state_diags, State = Removed,
               Calls = [GetNetworkTunnelGroup (ValueInt64 (ntg_Id ntg))]\<rparr>"
    by (simp add: ntg_Read_def Let_def)
  assume "err res"
  moreover from nf have "httpRes res \<noteq> None"
    by (auto simp: status_is_def split: option.splits)
  ultimately show "pr_Read state_diags pr res load_diags pr_loaded =
                 Returns \<lparr>Diagnostics = state_diags, State = Removed,
                          Calls = [GetPrivateResource (Atoi_value (ValueString (pr_ID pr)))]\<rparr>"
    using nf assms by (simp add: pr_Read_def Let_def)
next
  assume "i < 6 \<and> (\<forall>j<i. status_is (answers j) 429) \<and> status_is (answers i) 404"
  with assms show "rc_Read state_diags rc answers rc_loaded =
              \<lparr>Diagnostics = state_diags, State = Removed,
               Calls = replicate (Suc i) (GetConnector (ValueInt64 (rc_ID rc)))\<rparr>"
    by (intro rc_Read_not_found) simp_all
next
  assume "err res \<and> httpRes res = Some h"
  with assms show "dl_Read state_diags dl res name answer =
              (if Contains (Body h) destinationListNotFoundError
               then Returns \<lparr>Diagnostics = [], State = Removed,
                             Calls = [GetDestinationList (ValueInt64 (dl_Id dl))]\<rparr>
               else Returns \<lparr>Diagnostics = [ErrorDiag ''HTTP Response''], State = Untouched,
                             Calls = [GetDestinationList (ValueInt64 (dl_Id dl))]\<rparr>)"
    by (simp add: dl_Read_def AddError_def Let_def)
next
  assume "err res"
  with assms show "gs_Read state_diags gs res settings =
              \<lparr>Diagnostics = state_diags @ [ErrorDiag ''Error retrieving global policy settings''],
               State = Untouched, Calls = [GetPolicySettings]\<rparr>"
    by (simp add: gs_Read_def gs_FetchState_def HasError_def)
qed

theorem Read_not_found_witness:
  "\<not> HasError []
   \<and> status_is (answer_failed 404 ''gone'') 404 \<and> err (answer_failed 404 ''gone'')
   \<and> ap_Read [] ap_example (answer_failed 404 ''gone'') ap_example =
       \<lparr>Diagnostics = [], State = Removed, Calls = [GetRule 42]\<rparr>
   \<and> ntg_Read [] ntg_example (answer_failed 404 ''gone'') ntg_example =
       \<lparr>Diagnostics = [], State = Removed, Calls = [GetNetworkTunnelGroup 7]\<rparr>
   \<and> pr_Read [] pr_example (answer_failed 404 ''gone'') [] pr_example =
       Returns \<lparr>Diagnostics = [], State = Removed,
                Calls = [GetPrivateResource (Atoi_value ''314'')]\<rparr>
   \<and> status_is (then_not_found 429 0) 429 \<and> status_is (then_not_found 429 1) 404
   \<and> rc_Read [] rc_example (then_not_found 429) (\<lambda>i. rc_example) =
       \<lparr>Diagnostics = [], State = Removed, Calls = [GetConnector 3, GetConnector 3]\<rparr>
   \<and> err answer_list_gone
   \<and> dl_Read [] dl_example answer_list_gone ''allowed'' dests_answer =
       Returns \<lparr>Diagnostics = [], State = Removed, Calls = [GetDestinationList 55]\<rparr>
   \<and> gs_Read [] gs_current (answer_failed 404 ''gone'') [] =
       \<lparr>Diagnostics = [ErrorDiag ''Error retrieving global policy settings''],
        State = Untouched, Calls = [GetPolicySettings]\<rparr>"
  using Read_not_found [where state_diags = "[]" and res = "answer_failed 404 ''gone''"
          and any_diags = "[]" and ap = ap_example and ap_loaded = ap_example
          and ntg = ntg_example and ntg_loaded = ntg_example
          and pr = pr_example and load_diags = "[]" and pr_loaded = pr_example
          and i = 1 and answers = "then_not_found 429" and rc = rc_example
          and rc_loaded = "\<lambda>i. rc_example" and gs = gs_current and settings = "[]"]
        Read_not_found [where state_diags = "[]" and res = answer_list_gone
          and h = "\<lparr>StatusCode = 200,
               Body = ''{\"statusCode\":404,\"error\":\"Not Found\",\"message\":\"no list\"}''\<rparr>"
          and dl = dl_example and name = "''allowed''" and answer = dests_answer]
  by (simp add: HasError_def status_is_def answer_failed_def then_not_found_def
        answer_list_gone_def destinationListNotFoundError_def
        ntg_example_def pr_example_def dl_example_def ap_example_def rc_example_def
        ValueInt64_def ValueString_def)


section \<open>Destination list: reconciliation in Update\<close>

lemma reconciled_iff: "reconciled d xs \<longleftrightarrow> d \<in> Destination ` set xs"
  by (induction xs) auto

lemma missingDestinations_eq:
  "missingDestinations ps rs = map create_object (planned_not_observed ps rs)"
  by (induction ps) (simp_all add: planned_not_observed_def create_object_def reconciled_iff)

lemma extraDestinations_Some:
  "list_all id_parses (observed_not_planned rs ps) \<Longrightarrow>
   extraDestinations rs ps acc = Some (acc @ map destination_id (observed_not_planned rs ps))"
proof (induction rs arbitrary: acc)
  case Nil
  then show ?case by (simp add: observed_not_planned_def)
next
  case (Cons r rs)
  show ?case
  proof (cases "reconciled (Destination r) ps")
    case True
    with Cons show ?thesis
      by (simp add: observed_not_planned_def reconciled_iff)
  next
    case False
    with Cons.prems have p: "id_parses r" "list_all id_parses (observed_not_planned rs ps)"
      by (simp_all add: observed_not_planned_def reconciled_iff)
    from p(1) obtain n where n: "ParseInt (ValueString (dest_Id r)) = (n, None)"
      by (cases "ParseInt (ValueString (dest_Id r))") (simp add: id_parses_def)
    with False Cons.IH [OF p(2)] show ?thesis
      by (simp add: observed_not_planned_def reconciled_iff destination_id_def)
  qed
qed

lemma extraDestinations_subset:
  "extraDestinations rs ps acc = Some extra \<Longrightarrow>
   extra = acc @ map destination_id (observed_not_planned rs ps)"
proof (induction rs arbitrary: acc)
  case Nil
  then show ?case by (simp add: observed_not_planned_def)
next
  case (Cons r rs)
  show ?case
  proof (cases "reconciled (Destination r) ps")
    case True
    with Cons show ?thesis
      by (simp add: observed_not_planned_def reconciled_iff)
  next
    case False
    with Cons.prems obtain n where n: "ParseInt (ValueString (dest_Id r)) = (n, None)"
      and e: "extraDestinations rs ps (acc @ [n]) = Some extra"
      by (cases "ParseInt (ValueString (dest_Id r))") (auto split: option.splits)
    from Cons.IH [OF e] False n show ?thesis
      by (simp add: observed_not_planned_def reconciled_iff destination_id_def)
  qed
qed

lemma dl_reconcile_calls:
  assumes "\<not> err (getd_res (current_answer answers))"
  shows "Calls (response_of (dl_Update_reconcile plan state answers resp0)) =
     (let planned = ElementsAs (Destinations plan);
          observed = map model_destination (Data (current_answer answers));
          missing = map create_object (planned_not_observed planned observed)
      in Calls resp0 @ [GetDestinations (ValueInt64 (dl_Id state))]
         @ (if missing = [] then [] else [CreateDestinations (ValueInt64 (dl_Id plan)) missing])
         @ (if missing \<noteq> [] \<and> err (create_res answers) then []
            else case extraDestinations observed planned [] of
                   None \<Rightarrow> []
                 | Some extra \<Rightarrow>
                     (if extra = [] then [] else [DeleteDestinations (ValueInt64 (dl_Id plan)) extra])
                     @ (if extra \<noteq> [] \<and> err (delete_res answers) then []
                        else [GetDestinations (ValueInt64 (dl_Id plan))])))"
  using assms
  by (simp add: dl_Update_reconcile_def dl_GetDestinations_def missingDestinations_eq
        call_def AddError_def Let_def
        split: option.splits GetDestinations_result.splits)

lemma dl_Update_calls:
  assumes "\<not> HasError (plan_diags @ state_diags)"
    and "Equal (dl_Name plan) (dl_Name state) \<or> \<not> err (rename_res answers)"
    and "\<not> err (getd_res (current_answer answers))"
  shows "Calls (response_of (dl_Update plan_diags state_diags plan state answers)) =
     (let planned = ElementsAs (Destinations plan);
          observed = map model_destination (Data (current_answer answers));
          missing = map create_object (planned_not_observed planned observed)
      in (if Equal (dl_Name plan) (dl_Name state) then []
          else [UpdateDestinationLists (ValueInt64 (dl_Id plan)) (ValueString (dl_Name plan))])
         @ [GetDestinations (ValueInt64 (dl_Id state))]
         @ (if missing = [] then [] else [CreateDestinations (ValueInt64 (dl_Id plan)) missing])
         @ (if missing \<noteq> [] \<and> err (create_res answers) then []
            else case extraDestinations observed planned [] of
                   None \<Rightarrow> []
                 | Some extra \<Rightarrow>
                     (if extra = [] then [] else [DeleteDestinations (ValueInt64 (dl_Id plan)) extra])
                     @ (if extra \<noteq> [] \<and> err (delete_res answers) then []
                        else [GetDestinations (ValueInt64 (dl_Id plan))])))"
proof (cases "Equal (dl_Name plan) (dl_Name state)")
  case True
  with assms(1) show ?thesis
    by (simp add: dl_Update_def dl_reconcile_calls [OF assms(3)] Let_def)
next
  case False
  with assms(2) have "\<not> err (rename_res answers)" by simp
  with False assms(1) show ?thesis
    by (simp add: dl_Update_def dl_reconcile_calls [OF assms(3)] call_def Let_def)
qed

lemma ParseInt_102: "ParseInt ''102'' = (102, None)"
  by (simp add: ParseInt_def ParseUint_def digit_value_def Let_def)

text \<open>
  Claim C2 as stated fails on \<open>Update\<close> when the creation fails: the plan keeps
  one observed destination, drops the other and adds a new one; the call that
  creates the new one is answered with an error, \<open>Update\<close> returns, and the
  observed destination that is not planned is not deleted.
\<close>

theorem dl_Update_counterexample:
  "\<not> HasError ([] @ [])
   \<and> map model_destination (Data (current_answer dl_answers_create_fails))
       = [dest_example, dest_other]
   \<and> Destination dest_other \<notin> Destination ` set (ElementsAs (Destinations dl_plan))
   \<and> Calls (response_of (dl_Update [] [] dl_plan dl_example dl_answers_create_fails)) =
       [GetDestinations 55,
        CreateDestinations 55
          [\<lparr>create_Destination = ''example.net'', create_Comment = ''new''\<rparr>]]"
  by (simp add: dl_Update_def dl_Update_reconcile_def dl_GetDestinations_def
        dl_answers_create_fails_def dl_answers_ok_def dests_answer_def answer_ok_def
        answer_failed_def dl_plan_def dl_example_def dest_example_def dest_other_def
        dest_new_def model_destination_def ElementsAs_def HasError_def call_def AddError_def
        ValueInt64_def ValueString_def Let_def)

text \<open>
  Claim C2, amended. When plan and state decode, the patch of the name (if the
  name differs) succeeds and the current destinations are read: \<open>Update\<close>
  issues one call that creates exactly the planned destinations whose
  destination does not occur among the observed ones (no such call when there
  are none); when that call did not fail and the identifiers of the observed
  destinations that are not planned are decimal \<open>int64\<close>, it issues one call
  that deletes exactly those (no such call when there are none); it never
  deletes anything else; and it creates and deletes nothing when the planned
  and the observed destination strings are the same set.
\<close>

theorem dl_Update_reconciles:
  assumes "\<not> HasError (plan_diags @ state_diags)"
    and "Equal (dl_Name plan) (dl_Name state) \<or> \<not> err (rename_res answers)"
    and "\<not> err (getd_res (current_answer answers))"
  shows
    "let planned = ElementsAs (Destinations plan);
         observed = map model_destination (Data (current_answer answers));
         calls = Calls (response_of (dl_Update plan_diags state_diags plan state answers));
         create = CreateDestinations (ValueInt64 (dl_Id plan))
                    (map create_object (planned_not_observed planned observed));
         delete = DeleteDestinations (ValueInt64 (dl_Id plan))
                    (map destination_id (observed_not_planned observed planned))
     in filter is_CreateDestinations calls =
          (if planned_not_observed planned observed = [] then [] else [create])
        \<and> ((planned_not_observed planned observed = [] \<or> \<not> err (create_res answers))
             \<and> list_all id_parses (observed_not_planned observed planned)
            \<longrightarrow> filter is_DeleteDestinations calls =
                  (if observed_not_planned observed planned = [] then [] else [delete]))
        \<and> set (filter is_DeleteDestinations calls) \<subseteq> {delete}
        \<and> (Destination ` set planned = Destination ` set observed
            \<longrightarrow> filter is_CreateDestinations calls = []
                \<and> filter is_DeleteDestinations calls = [])"
proof -
  let ?planned = "ElementsAs (Destinations plan)"
  let ?observed = "map model_destination (Data (current_answer answers))"
  let ?calls = "Calls (response_of (dl_Update plan_diags state_diags plan state answers))"
  let ?missing = "planned_not_observed ?planned ?observed"
  let ?extra = "observed_not_planned ?observed ?planned"
  let ?create = "CreateDestinations (ValueInt64 (dl_Id plan)) (map create_object ?missing)"
  let ?delete = "DeleteDestinations (ValueInt64 (dl_Id plan)) (map destination_id ?extra)"
  note c = dl_Update_calls [OF assms, unfolded Let_def]
  have create: "filter is_CreateDestinations ?calls = (if ?missing = [] then [] else [?create])"
    unfolding c by (simp split: option.splits)
  have delete: "filter is_DeleteDestinations ?calls = (if ?extra = [] then [] else [?delete])"
    if "?missing = [] \<or> \<not> err (create_res answers)" "list_all id_parses ?extra"
  proof -
    from that(2) have "extraDestinations ?observed ?planned [] = Some (map destination_id ?extra)"
      using extraDestinations_Some [of ?observed ?planned "[]"] by simp
    with that(1) show ?thesis
      unfolding c by auto
  qed
  have only: "set (filter is_DeleteDestinations ?calls) \<subseteq> {?delete}"
  proof (cases "extraDestinations ?observed ?planned []")
    case None
    then show ?thesis unfolding c by simp
  next
    case (Some extra)
    then have "extra = map destination_id ?extra"
      using extraDestinations_subset [of ?observed ?planned "[]" extra] by simp
    with Some show ?thesis unfolding c by auto
  qed
  have equal: "filter is_CreateDestinations ?calls = [] \<and> filter is_DeleteDestinations ?calls = []"
    if "Destination ` set ?planned = Destination ` set ?observed"
  proof -
    from that have m: "?missing = []"
      by (auto simp: planned_not_observed_def filter_empty_conv)
    from that have e: "?extra = []"
      by (auto simp: observed_not_planned_def filter_empty_conv)
    from m create have "filter is_CreateDestinations ?calls = []" by simp
    moreover from m e delete have "filter is_DeleteDestinations ?calls = []" by simp
    ultimately show ?thesis by simp
  qed
  from create delete only equal show ?thesis
    unfolding Let_def by blast
qed

theorem dl_Update_reconciles_witness:
  "\<not> HasError ([] @ [])
   \<and> Equal (dl_Name dl_plan) (dl_Name dl_example)
   \<and> \<not> err (getd_res (current_answer dl_answers_ok))
   \<and> \<not> err (create_res dl_answers_ok)
   \<and> list_all id_parses (observed_not_planned
         (map model_destination (Data (current_answer dl_answers_ok)))
         (ElementsAs (Destinations dl_plan)))
   \<and> filter is_CreateDestinations
        (Calls (response_of (dl_Update [] [] dl_plan dl_example dl_answers_ok))) =
       [CreateDestinations 55 [\<lparr>create_Destination = ''example.net'', create_Comment = ''new''\<rparr>]]
   \<and> filter is_DeleteDestinations
        (Calls (response_of (dl_Update [] [] dl_plan dl_example dl_answers_ok))) =
       [DeleteDestinations 55 [102]]"
  using dl_Update_reconciles [of "[]" "[]" dl_plan dl_example dl_answers_ok]
  by (simp add: dl_answers_ok_def dests_answer_def answer_ok_def
        dl_plan_def dl_example_def dest_example_def dest_other_def
        dest_new_def model_destination_def ElementsAs_def HasError_def
        planned_not_observed_def observed_not_planned_def create_object_def
        destination_id_def id_parses_def ParseInt_102
        ValueInt64_def ValueString_def Let_def)


section \<open>Updates that change nothing\<close>

lemma hasChanges_fields:
  assumes "ap_Name plan = ap_Name state" "ap_Description plan = ap_Description state"
    "ap_Enabled plan = ap_Enabled state" "Priority plan = Priority state"
    "SourceIds plan = SourceIds state" "SourceTypes plan = SourceTypes state"
    "PrivateDestinationTypes plan = PrivateDestinationTypes state"
    "PublicDestinationTypes plan = PublicDestinationTypes state"
    "PrivateResourceIds plan = PrivateResourceIds state"
    "DestinationListIds plan = DestinationListIds state"
    "LogLevel plan = LogLevel state"
    "ClientPostureProfileId plan = ClientPostureProfileId state"
    "TrafficType plan = TrafficType state"
  shows "\<not> hasChanges plan state"
  unfolding hasChanges_def using assms by (simp add: Equal_refl SetEqual_refl)

lemma hasResourceChanges_fields:
  assumes "pr_Name plan = pr_Name state" "pr_Description plan = pr_Description state"
    "AccessTypes plan = AccessTypes state" "pr_Addresses plan = pr_Addresses state"
    "CertificateID plan = CertificateID state"
  shows "\<not> hasResourceChanges plan state"
  unfolding hasResourceChanges_def using assms
  by (simp add: Equal_refl SetEqual_refl addressTypesEqual_refl)

lemma ap_Update_unchanged:
  assumes "\<not> HasError (plan_diags @ state_diags)" "\<not> hasChanges plan state"
  shows "ap_Update plan_diags state_diags plan state put_res =
           Returns \<lparr>Diagnostics = plan_diags @ state_diags, State = StateSet plan, Calls = []\<rparr>"
proof -
  from assms(1) have "\<not> HasError plan_diags"
    by (simp add: HasError_def list_ex_iff)
  with assms show ?thesis
    by (simp add: ap_Update_def)
qed

text \<open>
  Claim C5. An \<open>Update\<close> whose plan equals the prior state in every compared
  field is a no-op on the remote API: \<open>Update\<close> of the access policy and
  \<open>Update\<close> of the private resource issue no call, report nothing beyond what
  decoding plan and state reported, and set the Terraform state to the plan.
\<close>

theorem Update_without_changes:
  assumes "\<not> HasError (plan_diags @ state_diags)"
  shows "(ap_Name plan = ap_Name state \<and> ap_Description plan = ap_Description state \<and>
          ap_Enabled plan = ap_Enabled state \<and> Priority plan = Priority state \<and>
          SourceIds plan = SourceIds state \<and> SourceTypes plan = SourceTypes state \<and>
          PrivateDestinationTypes plan = PrivateDestinationTypes state \<and>
          PublicDestinationTypes plan = PublicDestinationTypes state \<and>
          PrivateResourceIds plan = PrivateResourceIds state \<and>
          DestinationListIds plan = DestinationListIds state \<and>
          LogLevel plan = LogLevel state \<and>
          ClientPostureProfileId plan = ClientPostureProfileId state \<and>
          TrafficType plan = TrafficType state
          \<longrightarrow> ap_Update plan_diags state_diags plan state put_res =
                Returns \<lparr>Diagnostics = plan_diags @ state_diags, State = StateSet plan,
                         Calls = []\<rparr>)
       \<and> (pr_Name pplan = pr_Name pstate \<and> pr_Description pplan = pr_Description pstate \<and>
          AccessTypes pplan = AccessTypes pstate \<and> pr_Addresses pplan = pr_Addresses pstate \<and>
          CertificateID pplan = CertificateID pstate
          \<longrightarrow> pr_Update plan_diags state_diags pplan pstate format_diags pput_res =
                \<lparr>Diagnostics = plan_diags @ state_diags, State = StateSet pplan, Calls = []\<rparr>)"
proof (intro conjI impI)
  assume f: "ap_Name plan = ap_Name state \<and> ap_Description plan = ap_Description state \<and>
          ap_Enabled plan = ap_Enabled state \<and> Priority plan = Priority state \<and>
          SourceIds plan = SourceIds state \<and> SourceTypes plan = SourceTypes state \<and>
          PrivateDestinationTypes plan = PrivateDestinationTypes state \<and>
          PublicDestinationTypes plan = PublicDestinationTypes state \<and>
          PrivateResourceIds plan = PrivateResourceIds state \<and>
          DestinationListIds plan = DestinationListIds state \<and>
          LogLevel plan = LogLevel state \<and>
          ClientPostureProfileId plan = ClientPostureProfileId state \<and>
          TrafficType plan = TrafficType state"
  then have "\<not> hasChanges plan state"
    by (intro hasChanges_fields) simp_all
  then show "ap_Update plan_diags state_diags plan state put_res =
                Returns \<lparr>Diagnostics = plan_diags @ state_diags, State = StateSet plan,
                         Calls = []\<rparr>"
    using assms by (rule ap_Update_unchanged [rotated])
next
  assume "pr_Name pplan = pr_Name pstate \<and> pr_Description pplan = pr_Description pstate \<and>
          AccessTypes pplan = AccessTypes pstate \<and> pr_Addresses pplan = pr_Addresses pstate \<and>
          CertificateID pplan = CertificateID pstate"
  then have "\<not> hasResourceChanges pplan pstate"
    by (intro hasResourceChanges_fields) simp_all
  with assms show "pr_Update plan_diags state_diags pplan pstate format_diags pput_res =
                \<lparr>Diagnostics = plan_diags @ state_diags, State = StateSet pplan, Calls = []\<rparr>"
    by (simp add: pr_Update_def Let_def)
qed

theorem Update_without_changes_witness:
  "\<not> HasError ([] @ [])
   \<and> ap_Update [] [] ap_example ap_example (answer_failed 500 ''down'') =
       Returns \<lparr>Diagnostics = [], State = StateSet ap_example, Calls = []\<rparr>
   \<and> pr_Update [] [] pr_example pr_example [] (answer_failed 500 ''down'') =
       \<lparr>Diagnostics = [], State = StateSet pr_example, Calls = []\<rparr>"
  using Update_without_changes
          [of "[]" "[]" ap_example ap_example "answer_failed 500 ''down''"
              pr_example pr_example "[]" "answer_failed 500 ''down''"]
  by (simp add: HasError_def)

text \<open>
  Claim C9. \<open>hasChanges\<close> of the access policy does not look at the action:
  when plan and state agree on the thirteen compared fields and differ in the
  action, \<open>hasChanges\<close> is false, \<open>Update\<close> issues no call to the API, and the
  plan with its new action is what \<open>Update\<close> writes to the Terraform state.
\<close>

theorem hasChanges_ignores_Action:
  assumes "ap_Name plan = ap_Name state" "ap_Description plan = ap_Description state"
    "ap_Enabled plan = ap_Enabled state" "Priority plan = Priority state"
    "SourceIds plan = SourceIds state" "SourceTypes plan = SourceTypes state"
    "PrivateDestinationTypes plan = PrivateDestinationTypes state"
    "PublicDestinationTypes plan = PublicDestinationTypes state"
    "PrivateResourceIds plan = PrivateResourceIds state"
    "DestinationListIds plan = DestinationListIds state"
    "LogLevel plan = LogLevel state"
    "ClientPostureProfileId plan = ClientPostureProfileId state"
    "TrafficType plan = TrafficType state"
    and "Action plan \<noteq> Action state"
    and "\<not> HasError (plan_diags @ state_diags)"
  shows "\<not> hasChanges plan state
       \<and> ap_Update plan_diags state_diags plan state put_res =
           Returns \<lparr>Diagnostics = plan_diags @ state_diags, State = StateSet plan, Calls = []\<rparr>
       \<and> StateSet plan \<noteq> StateSet state"
proof -
  have c: "\<not> hasChanges plan state"
    using assms(1-13) by (rule hasChanges_fields)
  have "plan \<noteq> state"
    using assms(14) by auto
  then show ?thesis
    using c ap_Update_unchanged [OF assms(15) c] by simp
qed

theorem hasChanges_ignores_Action_witness:
  "Action ap_blocked \<noteq> Action ap_example
   \<and> \<not> hasChanges ap_blocked ap_example
   \<and> ap_Update [] [] ap_blocked ap_example answer_ok =
       Returns \<lparr>Diagnostics = [], State = StateSet ap_blocked, Calls = []\<rparr>"
proof -
  have f: "ap_Name ap_blocked = ap_Name ap_example"
    "ap_Description ap_blocked = ap_Description ap_example"
    "ap_Enabled ap_blocked = ap_Enabled ap_example" "Priority ap_blocked = Priority ap_example"
    "SourceIds ap_blocked = SourceIds ap_example" "SourceTypes ap_blocked = SourceTypes ap_example"
    "PrivateDestinationTypes ap_blocked = PrivateDestinationTypes ap_example"
    "PublicDestinationTypes ap_blocked = PublicDestinationTypes ap_example"
    "PrivateResourceIds ap_blocked = PrivateResourceIds ap_example"
    "DestinationListIds ap_blocked = DestinationListIds ap_example"
    "LogLevel ap_blocked = LogLevel ap_example"
    "ClientPostureProfileId ap_blocked = ClientPostureProfileId ap_example"
    "TrafficType ap_blocked = TrafficType ap_example"
    by (simp_all add: ap_blocked_def)
  have a: "Action ap_blocked \<noteq> Action ap_example"
    by (simp add: ap_blocked_def ap_example_def)
  have d: "\<not> HasError ([] @ [])"
    by (simp add: HasError_def)
  from hasChanges_ignores_Action [OF f a d, of answer_ok] a show ?thesis
    by simp
qed

section \<open>Global settings\<close>

lemma gs_PutState_profile_calls:
  "ps_calls (gs_PutState_profile cur plan res2 calls) =
     calls @ (if \<not> IsUnknown (GlobalIPSProfileId plan) \<and>
                 ValueInt64 (GlobalIPSProfileId plan) \<noteq> ValueInt64 (GlobalIPSProfileId cur)
              then [PutPolicySetting SETTINGNAME_UMBRELLA_POSTURE_IPS_PROFILE_ID
                      (Int64Setting (ValueInt64 (GlobalIPSProfileId plan)))]
              else [])"
  by (simp add: gs_PutState_profile_def Let_def)

lemma gs_PutState_profile_plan:
  "ps_plan (gs_PutState_profile cur plan res2 calls) =
     (if IsUnknown (GlobalIPSProfileId plan)
      then plan\<lparr>GlobalIPSProfileId := GlobalIPSProfileId cur\<rparr> else plan)"
  by (simp add: gs_PutState_profile_def Let_def)

lemma gs_PutState_calls:
  "ps_calls (gs_PutState cur plan res1 res2) =
     (if \<not> IsUnknown (EnableGlobalDecryption plan) \<and>
         ValueBool (EnableGlobalDecryption plan) \<noteq> ValueBool (EnableGlobalDecryption cur)
      then PutPolicySetting SETTINGNAME_SSE_GLOBAL_IPS_ENABLED
             (BoolSetting (ValueBool (EnableGlobalDecryption plan)))
           # (if \<not> err res1 \<and> \<not> IsUnknown (GlobalIPSProfileId plan) \<and>
                 ValueInt64 (GlobalIPSProfileId plan) \<noteq> ValueInt64 (GlobalIPSProfileId cur)
              then [PutPolicySetting SETTINGNAME_UMBRELLA_POSTURE_IPS_PROFILE_ID
                      (Int64Setting (ValueInt64 (GlobalIPSProfileId plan)))]
              else [])
      else (if \<not> IsUnknown (GlobalIPSProfileId plan) \<and>
                 ValueInt64 (GlobalIPSProfileId plan) \<noteq> ValueInt64 (GlobalIPSProfileId cur)
              then [PutPolicySetting SETTINGNAME_UMBRELLA_POSTURE_IPS_PROFILE_ID
                      (Int64Setting (ValueInt64 (GlobalIPSProfileId plan)))]
              else []))"
  by (simp add: gs_PutState_def gs_PutState_profile_calls Let_def)

lemma gs_PutState_plan_decryption:
  "EnableGlobalDecryption (ps_plan (gs_PutState cur plan res1 res2)) =
     (if IsUnknown (EnableGlobalDecryption plan) then EnableGlobalDecryption cur
      else EnableGlobalDecryption plan)"
  by (simp add: gs_PutState_def gs_PutState_profile_plan Let_def)

lemma gs_PutState_plan_profile:
  "GlobalIPSProfileId (ps_plan (gs_PutState cur plan res1 res2)) =
     (if IsUnknown (GlobalIPSProfileId plan) \<and>
         \<not> (\<not> IsUnknown (EnableGlobalDecryption plan) \<and>
            ValueBool (EnableGlobalDecryption plan) \<noteq> ValueBool (EnableGlobalDecryption cur) \<and>
            err res1)
      then GlobalIPSProfileId cur else GlobalIPSProfileId plan)"
  by (simp add: gs_PutState_def gs_PutState_profile_plan Let_def)

lemma gs_PutState_failed_decryption:
  "\<not> IsUnknown (EnableGlobalDecryption plan) \<Longrightarrow>
   ValueBool (EnableGlobalDecryption plan) \<noteq> ValueBool (EnableGlobalDecryption cur) \<Longrightarrow>
   err res1 \<Longrightarrow> HasError (ps_diags (gs_PutState cur plan res1 res2))"
  by (simp add: gs_PutState_def HasError_def Let_def)

text \<open>
  Claim C8. \<open>Delete\<close> of the global settings issues no call to the API, so the
  settings of the remote service are what they were; it adds no diagnostic to
  those of decoding the state, and the entry leaves the Terraform state (the
  framework removes it when no error was reported).
\<close>

theorem gs_Delete_no_call:
  "Calls (gs_Delete state_diags data0) = []
   \<and> apply_calls (Calls (gs_Delete state_diags data0)) remote = remote
   \<and> Diagnostics (gs_Delete state_diags data0) = state_diags
   \<and> State (gs_Delete state_diags data0) = Untouched
   \<and> (\<not> HasError state_diags \<longrightarrow> framework_after_Delete (gs_Delete state_diags data0) = Removed)"
  by (simp add: gs_Delete_def framework_after_Delete_def)

theorem gs_Delete_no_call_witness:
  "\<not> HasError []
   \<and> Calls (gs_Delete [] gs_current) = []
   \<and> apply_calls (Calls (gs_Delete [] gs_current)) remote_example = remote_example
   \<and> Diagnostics (gs_Delete [] gs_current) = []
   \<and> framework_after_Delete (gs_Delete [] gs_current) = Removed"
  using gs_Delete_no_call [of "[]" gs_current remote_example]
  by (simp add: HasError_def)

text \<open>
  Claim C7 as stated fails on \<open>PutState\<close>. With a planned decryption flag that
  differs from the current one, an unknown planned profile identifier and a
  failing write of the flag, \<open>PutState\<close> returns before the profile identifier
  is looked at: the unknown plan field is not filled from the current value.
  And a planned flag that is null (neither known nor unknown) is written as
  false when the current flag is true.
\<close>

theorem gs_PutState_counterexample:
  "GlobalIPSProfileId gs_flag_only = Unknown
   \<and> GlobalIPSProfileId (ps_plan (gs_PutState gs_current gs_flag_only
        (answer_failed 500 ''down'') answer_ok)) = Unknown
   \<and> GlobalIPSProfileId gs_current = Known 7
   \<and> EnableGlobalDecryption gs_unset = Null
   \<and> ps_calls (gs_PutState gs_current gs_unset answer_ok answer_ok) =
       [PutPolicySetting SETTINGNAME_SSE_GLOBAL_IPS_ENABLED (BoolSetting False)]"
  by (simp add: gs_PutState_def gs_PutState_profile_def gs_current_def gs_unset_def
        gs_flag_only_def answer_failed_def answer_ok_def IsUnknown_def ValueBool_def
        ValueInt64_def)

text \<open>
  Claim C7, amended. \<open>PutState\<close> writes a setting only when its planned value is
  not unknown and its value (false or 0 for null) differs from the current one,
  and writes the planned value; the profile identifier is only looked at when
  the write of the decryption flag, if any, did not fail. An unknown planned
  value is never written, and the plan field is filled from the current value
  (for the profile identifier: unless the write of the flag failed). A setting
  whose planned value equals the current one is not written and its plan field
  is left as it is. \<open>PutState\<close> issues no other call.
\<close>

theorem gs_PutState_writes:
  "(PutPolicySetting SETTINGNAME_SSE_GLOBAL_IPS_ENABLED v
      \<in> set (ps_calls (gs_PutState cur plan res1 res2))
    \<longrightarrow> \<not> IsUnknown (EnableGlobalDecryption plan)
        \<and> ValueBool (EnableGlobalDecryption plan) \<noteq> ValueBool (EnableGlobalDecryption cur)
        \<and> v = BoolSetting (ValueBool (EnableGlobalDecryption plan)))
   \<and> (PutPolicySetting SETTINGNAME_UMBRELLA_POSTURE_IPS_PROFILE_ID v
      \<in> set (ps_calls (gs_PutState cur plan res1 res2))
    \<longrightarrow> \<not> IsUnknown (GlobalIPSProfileId plan)
        \<and> ValueInt64 (GlobalIPSProfileId plan) \<noteq> ValueInt64 (GlobalIPSProfileId cur)
        \<and> v = Int64Setting (ValueInt64 (GlobalIPSProfileId plan))
        \<and> \<not> (PutPolicySetting SETTINGNAME_SSE_GLOBAL_IPS_ENABLED
                (BoolSetting (ValueBool (EnableGlobalDecryption plan)))
                \<in> set (ps_calls (gs_PutState cur plan res1 res2)) \<and> err res1))
   \<and> (IsUnknown (EnableGlobalDecryption plan)
    \<longrightarrow> EnableGlobalDecryption (ps_plan (gs_PutState cur plan res1 res2))
          = EnableGlobalDecryption cur
        \<and> PutPolicySetting SETTINGNAME_SSE_GLOBAL_IPS_ENABLED v
            \<notin> set (ps_calls (gs_PutState cur plan res1 res2)))
   \<and> (IsUnknown (GlobalIPSProfileId plan)
    \<longrightarrow> PutPolicySetting SETTINGNAME_UMBRELLA_POSTURE_IPS_PROFILE_ID v
            \<notin> set (ps_calls (gs_PutState cur plan res1 res2))
        \<and> (\<not> HasError (ps_diags (gs_PutState cur plan res1 res2))
            \<longrightarrow> GlobalIPSProfileId (ps_plan (gs_PutState cur plan res1 res2))
                  = GlobalIPSProfileId cur))
   \<and> (EnableGlobalDecryption plan = EnableGlobalDecryption cur
    \<longrightarrow> PutPolicySetting SETTINGNAME_SSE_GLOBAL_IPS_ENABLED v
            \<notin> set (ps_calls (gs_PutState cur plan res1 res2))
        \<and> EnableGlobalDecryption (ps_plan (gs_PutState cur plan res1 res2))
            = EnableGlobalDecryption plan)
   \<and> (GlobalIPSProfileId plan = GlobalIPSProfileId cur
    \<longrightarrow> PutPolicySetting SETTINGNAME_UMBRELLA_POSTURE_IPS_PROFILE_ID v
            \<notin> set (ps_calls (gs_PutState cur plan res1 res2))
        \<and> GlobalIPSProfileId (ps_plan (gs_PutState cur plan res1 res2))
            = GlobalIPSProfileId plan)
   \<and> (\<forall>c \<in> set (ps_calls (gs_PutState cur plan res1 res2)).
        c = PutPolicySetting SETTINGNAME_SSE_GLOBAL_IPS_ENABLED
              (BoolSetting (ValueBool (EnableGlobalDecryption plan)))
        \<or> c = PutPolicySetting SETTINGNAME_UMBRELLA_POSTURE_IPS_PROFILE_ID
              (Int64Setting (ValueInt64 (GlobalIPSProfileId plan))))"
proof -
  note c = gs_PutState_calls [of cur plan res1 res2]
  note pd = gs_PutState_plan_decryption [of cur plan res1 res2]
  note pp = gs_PutState_plan_profile [of cur plan res1 res2]
  note fd = gs_PutState_failed_decryption [of plan cur res1 res2]
  show ?thesis
  proof (intro conjI)
    show "PutPolicySetting SETTINGNAME_SSE_GLOBAL_IPS_ENABLED v
      \<in> set (ps_calls (gs_PutState cur plan res1 res2))
    \<longrightarrow> \<not> IsUnknown (EnableGlobalDecryption plan)
        \<and> ValueBool (EnableGlobalDecryption plan) \<noteq> ValueBool (EnableGlobalDecryption cur)
        \<and> v = BoolSetting (ValueBool (EnableGlobalDecryption plan))"
      unfolding c by (simp split: if_splits)
  qed (insert fd, (simp add: c pd pp split: if_splits)+)
qed


theorem gs_PutState_writes_witness:
  "PutPolicySetting SETTINGNAME_SSE_GLOBAL_IPS_ENABLED (BoolSetting False)
      \<in> set (ps_calls (gs_PutState gs_current gs_changed answer_ok answer_ok))
   \<and> PutPolicySetting SETTINGNAME_UMBRELLA_POSTURE_IPS_PROFILE_ID (Int64Setting 9)
      \<in> set (ps_calls (gs_PutState gs_current gs_changed answer_ok answer_ok))
   \<and> \<not> IsUnknown (EnableGlobalDecryption gs_changed)
   \<and> ValueBool (EnableGlobalDecryption gs_changed) \<noteq> ValueBool (EnableGlobalDecryption gs_current)
   \<and> ValueInt64 (GlobalIPSProfileId gs_changed) \<noteq> ValueInt64 (GlobalIPSProfileId gs_current)
   \<and> IsUnknown (EnableGlobalDecryption gs_unknown)
   \<and> IsUnknown (GlobalIPSProfileId gs_unknown)
   \<and> \<not> HasError (ps_diags (gs_PutState gs_current gs_unknown answer_ok answer_ok))
   \<and> ps_calls (gs_PutState gs_current gs_unknown answer_ok answer_ok) = []
   \<and> EnableGlobalDecryption (ps_plan (gs_PutState gs_current gs_unknown answer_ok answer_ok))
        = Known True
   \<and> GlobalIPSProfileId (ps_plan (gs_PutState gs_current gs_unknown answer_ok answer_ok))
        = Known 7
   \<and> ps_calls (gs_PutState gs_current gs_current answer_ok answer_ok) = []
   \<and> ps_plan (gs_PutState gs_current gs_current answer_ok answer_ok) = gs_current"
  using gs_PutState_writes [of "BoolSetting False" gs_current gs_changed answer_ok answer_ok]
        gs_PutState_writes [of "Int64Setting 9" gs_current gs_changed answer_ok answer_ok]
        gs_PutState_writes [of "BoolSetting False" gs_current gs_unknown answer_ok answer_ok]
        gs_PutState_writes [of "BoolSetting False" gs_current gs_current answer_ok answer_ok]
  by (simp add: gs_PutState_def gs_PutState_profile_def gs_current_def gs_changed_def
        gs_unknown_def answer_ok_def IsUnknown_def ValueBool_def ValueInt64_def HasError_def
        Let_def)

section \<open>Network tunnel group: what Update patches\<close>

lemma ntg_Update_calls:
  "Calls (ntg_Update pd sd plan state res) =
     (if HasError (pd @ sd) \<or> ntg_patchInners plan state = [] then []
      else [PatchNetworkTunnelGroup (ValueInt64 (ntg_Id plan)) (ntg_patchInners plan state)])"
  by (auto simp: ntg_Update_def Let_def HasError_def)

lemma ntg_patchInners_paths:
  "patch_path ` set (ntg_patchInners plan state) =
     (if ntg_Name plan \<noteq> ntg_Name state then {''/name''} else {})
   \<union> (if PresharedKey plan \<noteq> PresharedKey state then {''/passphrase''} else {})
   \<union> (if length (NetworkCidrs plan) \<noteq> length (NetworkCidrs state)
          \<or> \<not> set (NetworkCidrs state) \<subseteq> set (NetworkCidrs plan)
       then {''/routing''} else {})"
  by (auto simp: ntg_patchInners_def Equal_iff compareStringSlicesAsSets_iff)

lemma ntg_patchInners_replace:
  "p \<in> set (ntg_patchInners plan state) \<Longrightarrow> patch_op p = ''replace''"
  by (auto simp: ntg_patchInners_def split: if_splits)

lemma ntg_patchInners_empty:
  "ntg_patchInners plan state = [] \<longleftrightarrow> patch_path ` set (ntg_patchInners plan state) = {}"
  by simp

text \<open>
  Claim C6 as stated fails on \<open>Update\<close>: a plan that repeats the only CIDR of
  the state has the same name, the same key and the same set of CIDRs as the
  state, and \<open>Update\<close> still sends a patch that replaces \<open>/routing\<close>.
\<close>

theorem ntg_Update_routing_counterexample:
  "set (NetworkCidrs ntg_twice) = set (NetworkCidrs ntg_single)
   \<and> ntg_Name ntg_twice = ntg_Name ntg_single
   \<and> PresharedKey ntg_twice = PresharedKey ntg_single
   \<and> Calls (ntg_Update [] [] ntg_twice ntg_single answer_ok) =
       [PatchNetworkTunnelGroup 7
          [\<lparr>patch_op = ''replace'', patch_path = ''/routing'',
            patch_value = RoutingPatch ''static'' [''10.0.0.0/8'', ''10.0.0.0/8'']\<rparr>]]"
  by (simp add: ntg_twice_def ntg_single_def ntg_example_def cidr_a_def ntg_Update_def
        ntg_patchInners_def compareStringSlicesAsSets_def convertNetworkCidrsToStrings_def
        ValueString_def ValueInt64_def HasError_def answer_ok_def Let_def)

text \<open>
  Claim C6, amended. Every call of \<open>Update\<close> is one PATCH of the planned
  identifier whose elements are "replace" operations on \<open>/name\<close>,
  \<open>/passphrase\<close> or \<open>/routing\<close>; \<open>/name\<close> and \<open>/passphrase\<close> are patched only
  if the planned name or key differs from the state, and \<open>/routing\<close> only if
  the planned CIDR list differs from the list in state in length or lacks one
  of its CIDRs. When none of these differences is there, no call is made.
\<close>

theorem ntg_Update_patches:
  "(\<forall>c \<in> set (Calls (ntg_Update pd sd plan state res)).
      \<exists>ops. c = PatchNetworkTunnelGroup (ValueInt64 (ntg_Id plan)) ops
        \<and> (\<forall>p \<in> set ops. patch_op p = ''replace''
              \<and> patch_path p \<in> {''/name'', ''/passphrase'', ''/routing''})
        \<and> (''/name'' \<in> patch_path ` set ops \<longrightarrow> ntg_Name plan \<noteq> ntg_Name state)
        \<and> (''/passphrase'' \<in> patch_path ` set ops \<longrightarrow> PresharedKey plan \<noteq> PresharedKey state)
        \<and> (''/routing'' \<in> patch_path ` set ops \<longrightarrow>
              length (NetworkCidrs plan) \<noteq> length (NetworkCidrs state)
              \<or> \<not> set (NetworkCidrs state) \<subseteq> set (NetworkCidrs plan)))
   \<and> (ntg_Name plan = ntg_Name state \<and> PresharedKey plan = PresharedKey state
       \<and> length (NetworkCidrs plan) = length (NetworkCidrs state)
       \<and> set (NetworkCidrs state) \<subseteq> set (NetworkCidrs plan)
      \<longrightarrow> Calls (ntg_Update pd sd plan state res) = [])"
proof (intro conjI ballI impI)
  fix c assume "c \<in> set (Calls (ntg_Update pd sd plan state res))"
  then have c: "c = PatchNetworkTunnelGroup (ValueInt64 (ntg_Id plan)) (ntg_patchInners plan state)"
    by (simp add: ntg_Update_calls split: if_splits)
  have r: "\<forall>p \<in> set (ntg_patchInners plan state). patch_op p = ''replace''
              \<and> patch_path p \<in> {''/name'', ''/passphrase'', ''/routing''}"
  proof
    fix p assume p: "p \<in> set (ntg_patchInners plan state)"
    then have "patch_path p \<in> patch_path ` set (ntg_patchInners plan state)"
      by simp
    then have "patch_path p \<in> {''/name'', ''/passphrase'', ''/routing''}"
      unfolding ntg_patchInners_paths by (auto split: if_splits)
    with p show "patch_op p = ''replace''
              \<and> patch_path p \<in> {''/name'', ''/passphrase'', ''/routing''}"
      by (simp add: ntg_patchInners_replace)
  qed
  show "\<exists>ops. c = PatchNetworkTunnelGroup (ValueInt64 (ntg_Id plan)) ops
        \<and> (\<forall>p \<in> set ops. patch_op p = ''replace''
              \<and> patch_path p \<in> {''/name'', ''/passphrase'', ''/routing''})
        \<and> (''/name'' \<in> patch_path ` set ops \<longrightarrow> ntg_Name plan \<noteq> ntg_Name state)
        \<and> (''/passphrase'' \<in> patch_path ` set ops \<longrightarrow> PresharedKey plan \<noteq> PresharedKey state)
        \<and> (''/routing'' \<in> patch_path ` set ops \<longrightarrow>
              length (NetworkCidrs plan) \<noteq> length (NetworkCidrs state)
              \<or> \<not> set (NetworkCidrs state) \<subseteq> set (NetworkCidrs plan))"
  proof (intro exI [of _ "ntg_patchInners plan state"] conjI)
    show "c = PatchNetworkTunnelGroup (ValueInt64 (ntg_Id plan)) (ntg_patchInners plan state)"
      by (rule c)
    show "\<forall>p \<in> set (ntg_patchInners plan state). patch_op p = ''replace''
              \<and> patch_path p \<in> {''/name'', ''/passphrase'', ''/routing''}"
      by (rule r)
  qed (unfold ntg_patchInners_paths, (simp split: if_splits)+)
next
  assume "ntg_Name plan = ntg_Name state \<and> PresharedKey plan = PresharedKey state
       \<and> length (NetworkCidrs plan) = length (NetworkCidrs state)
       \<and> set (NetworkCidrs state) \<subseteq> set (NetworkCidrs plan)"
  then have "patch_path ` set (ntg_patchInners plan state) = {}"
    unfolding ntg_patchInners_paths by simp
  then show "Calls (ntg_Update pd sd plan state res) = []"
    by (simp add: ntg_Update_calls)
qed


theorem ntg_Update_patches_witness:
  "PatchNetworkTunnelGroup 7
      [\<lparr>patch_op = ''replace'', patch_path = ''/routing'',
        patch_value = RoutingPatch ''static'' [''10.0.0.0/8'']\<rparr>]
     \<in> set (Calls (ntg_Update [] [] ntg_single ntg_example answer_ok))
   \<and> length (NetworkCidrs ntg_single) \<noteq> length (NetworkCidrs ntg_example)
   \<and> ntg_Name ntg_reordered = ntg_Name ntg_example
   \<and> PresharedKey ntg_reordered = PresharedKey ntg_example
   \<and> length (NetworkCidrs ntg_reordered) = length (NetworkCidrs ntg_example)
   \<and> set (NetworkCidrs ntg_example) \<subseteq> set (NetworkCidrs ntg_reordered)
   \<and> Calls (ntg_Update [] [] ntg_reordered ntg_example answer_ok) = []"
  using ntg_Update_patches [of "[]" "[]" ntg_single ntg_example answer_ok]
        ntg_Update_patches [of "[]" "[]" ntg_reordered ntg_example answer_ok]
  by (simp add: ntg_single_def ntg_reordered_def ntg_example_def cidr_a_def cidr_b_def
        ntg_Update_def ntg_patchInners_def compareStringSlicesAsSets_def
        convertNetworkCidrsToStrings_def ValueString_def ValueInt64_def HasError_def
        answer_ok_def Let_def)

section \<open>Network tunnel group: order-insensitive comparison of the CIDR lists\<close>

text \<open>
  Claim C10. When \<open>b\<close> is a permutation of \<open>a\<close>, \<open>compareStringSlicesAsSets a b\<close>
  is true, so \<open>Update\<close> of the network tunnel group puts no \<open>/routing\<close> element
  into its patch when the planned CIDR list is a reordering of the list in state;
  and when the two lists have different lengths the function is false.
\<close>

theorem compareStringSlicesAsSets_permutation:
  "(mset b = mset a \<longrightarrow> compareStringSlicesAsSets a b)
   \<and> (mset (NetworkCidrs plan) = mset (NetworkCidrs state) \<longrightarrow>
        ''/routing'' \<notin> patch_path ` set (ntg_patchInners plan state)
        \<and> (\<forall>tid ops. PatchNetworkTunnelGroup tid ops
               \<in> set (Calls (ntg_Update pd sd plan state res))
             \<longrightarrow> ''/routing'' \<notin> patch_path ` set ops))
   \<and> (length a \<noteq> length b \<longrightarrow> \<not> compareStringSlicesAsSets a b)"
proof (intro conjI impI)
  assume "mset b = mset a"
  then have "length a = length b" "set a = set b"
    by (metis size_mset, metis set_mset_mset)
  then show "compareStringSlicesAsSets a b"
    by (simp add: compareStringSlicesAsSets_iff)
next
  assume m: "mset (NetworkCidrs plan) = mset (NetworkCidrs state)"
  then have "length (NetworkCidrs state) = length (NetworkCidrs plan)"
    "set (NetworkCidrs state) = set (NetworkCidrs plan)"
    by (metis size_mset, metis set_mset_mset)
  then have c: "compareStringSlicesAsSets (NetworkCidrs state) (NetworkCidrs plan)"
    by (simp add: compareStringSlicesAsSets_iff)
  then show r: "''/routing'' \<notin> patch_path ` set (ntg_patchInners plan state)"
    by (auto simp: ntg_patchInners_def)
  show "\<forall>tid ops. PatchNetworkTunnelGroup tid ops
               \<in> set (Calls (ntg_Update pd sd plan state res))
             \<longrightarrow> ''/routing'' \<notin> patch_path ` set ops"
    using r by (auto simp: ntg_Update_def Let_def split: if_splits)
next
  assume "length a \<noteq> length b"
  then show "\<not> compareStringSlicesAsSets a b"
    by (simp add: compareStringSlicesAsSets_def)
qed

theorem compareStringSlicesAsSets_permutation_witness:
  "mset [cidr_b, cidr_a] = mset [cidr_a, cidr_b]
   \<and> compareStringSlicesAsSets [cidr_a, cidr_b] [cidr_b, cidr_a]
   \<and> mset (NetworkCidrs ntg_reordered) = mset (NetworkCidrs ntg_example)
   \<and> ''/routing'' \<notin> patch_path ` set (ntg_patchInners ntg_reordered ntg_example)
   \<and> Calls (ntg_Update [] [] ntg_reordered ntg_example answer_ok) = []
   \<and> length [cidr_a] \<noteq> length [cidr_a, cidr_b]
   \<and> \<not> compareStringSlicesAsSets [cidr_a] [cidr_a, cidr_b]"
  using compareStringSlicesAsSets_permutation
          [of "[cidr_b, cidr_a]" "[cidr_a, cidr_b]" ntg_reordered ntg_example "[]" "[]" answer_ok]
        compareStringSlicesAsSets_permutation
          [of "[cidr_a, cidr_b]" "[cidr_a]" ntg_reordered ntg_example "[]" "[]" answer_ok]
  by (simp add: ntg_reordered_def ntg_example_def cidr_a_def cidr_b_def ntg_Update_def
        ntg_patchInners_def compareStringSlicesAsSets_def HasError_def Let_def)

end
